theory Spec2Isabelle
  imports Main "HOL-Library.Sublist" "HOL-Library.Word"
begin

section \<open>Go values: errors, panics and results\<close>

text \<open>
  The repository holds two Go programs of package \<open>main\<close>: \<open>xcode-runner.go\<close>, which
  lists devices through \<open>xcrun simctl list devices --json\<close>, and a second file (called the
  xctrace program below), which lists them through \<open>xcrun xctrace list devices\<close>. The
  functions \<open>RunShellCommand\<close>, \<open>GetSchemes\<close>, \<open>detectXcodeProject\<close> and
  \<open>GetBuildSettings\<close> are the same text in both files and are modelled once;
  \<open>GetDevices\<close> and \<open>main\<close> differ and are modelled once per file, with the suffix
  \<open>_simctl\<close> or \<open>_xctrace\<close>.

  A Go \<open>string\<close> is a sequence of bytes, here a \<open>char list\<close>. An \<open>error\<close> value is
  represented by its message. A function that returns \<open>(T, error)\<close> returns \<open>Ok\<close> or
  \<open>Err\<close>; a run-time panic, which unwinds the whole program, is the third outcome.
\<close>

datatype go_error = GoError string

datatype go_panic =
    SliceBoundsOutOfRange int
  | InterfaceConversion string
  | IndexOutOfRange int

datatype 'a go_result = Ok 'a | Err go_error | Panic go_panic

fun Error :: "go_error \<Rightarrow> string" where
  "Error (GoError msg) = msg"

text \<open>
  Sequencing: \<open>and_then r f\<close> goes on with \<open>f\<close> when \<open>r\<close> is a value, and stops with
  the error or the panic of \<open>r\<close> otherwise.
\<close>

definition and_then :: "'a go_result \<Rightarrow> ('a \<Rightarrow> 'b go_result) \<Rightarrow> 'b go_result" where
  "and_then r f = (case r of Ok x \<Rightarrow> f x | Err err \<Rightarrow> Err err | Panic p \<Rightarrow> Panic p)"

section \<open>Package strings\<close>

definition HasPrefix :: "string \<Rightarrow> string \<Rightarrow> bool" where
  "HasPrefix s pre = prefix pre s"

definition HasSuffix :: "string \<Rightarrow> string \<Rightarrow> bool" where
  "HasSuffix s suf = suffix suf s"

text \<open>\<open>strings.Contains(s, substr)\<close>: \<open>substr\<close> occurs in \<open>s\<close> as a run of consecutive bytes.\<close>

fun Contains :: "string \<Rightarrow> string \<Rightarrow> bool" where
  "Contains [] substr = (substr = [])"
| "Contains (c # cs) substr = (prefix substr (c # cs) \<or> Contains cs substr)"

text \<open>
  \<open>strings.ContainsAny(s, chars)\<close> compares code points. It is only called with the ASCII
  set \<open>0123456789ABCDEF\<close>; an ASCII code point is one byte and that byte occurs in no
  other UTF-8 sequence, so the comparison is made on bytes.
\<close>

definition ContainsAny :: "string \<Rightarrow> string \<Rightarrow> bool" where
  "ContainsAny s chars = list_ex (\<lambda>c. c \<in> set chars) s"

text \<open>
  \<open>strings.LastIndex(s, substr)\<close>: the index of the last occurrence of \<open>substr\<close> in
  \<open>s\<close>, or \<open>-1\<close>. The last occurrence in \<open>c # cs\<close> is the last one in \<open>cs\<close> moved by
  one, or else the one at the head.
\<close>

fun LastIndex :: "string \<Rightarrow> string \<Rightarrow> int" where
  "LastIndex [] substr = (if substr = [] then 0 else - 1)"
| "LastIndex (c # cs) substr =
     (let later = LastIndex cs substr in
      if 0 \<le> later then later + 1
      else if prefix substr (c # cs) then 0 else - 1)"

definition TrimSuffix :: "string \<Rightarrow> string \<Rightarrow> string" where
  "TrimSuffix s suf = (if HasSuffix s suf then take (length s - length suf) s else s)"

text \<open>
  Slice expressions \<open>s[i:]\<close> and \<open>s[:j]\<close> on a string. Go checks the bounds at run time
  and panics outside \<open>0 .. len(s)\<close>; the index is an \<open>int\<close> and may be negative.
\<close>

definition slice_from :: "string \<Rightarrow> int \<Rightarrow> string go_result" where
  "slice_from s i =
     (if 0 \<le> i \<and> i \<le> int (length s) then Ok (drop (nat i) s)
      else Panic (SliceBoundsOutOfRange i))"

definition slice_to :: "string \<Rightarrow> int \<Rightarrow> string go_result" where
  "slice_to s j =
     (if 0 \<le> j \<and> j \<le> int (length s) then Ok (take (nat j) s)
      else Panic (SliceBoundsOutOfRange j))"

subsection \<open>\<open>strings.TrimSpace\<close>\<close>

text \<open>
  \<open>TrimSpace\<close> removes leading and trailing white space as defined by Unicode
  (\<open>unicode.IsSpace\<close>), decoding the bytes as UTF-8. The white-space code points and their
  UTF-8 encodings are: U+0009 to U+000D and U+0020 (one byte each); U+0085 (C2 85) and
  U+00A0 (C2 A0); U+1680 (E1 9A 80); U+2000 to U+200A (E2 80 80 to E2 80 8A); U+2028,
  U+2029, U+202F (E2 80 A8, E2 80 A9, E2 80 AF); U+205F (E2 81 9F); U+3000 (E3 80 80).
  The decoder accepts only the shortest encoding of a code point, so a rune at the start
  (or at the end) of a string is white space exactly when the string starts (ends) with
  one of these byte sequences. No encoding is longer than three bytes.
\<close>

definition spaceRunes :: "string list" where
  "spaceRunes =
     [[CHR 0x09], [CHR 0x0A], [CHR 0x0B], [CHR 0x0C], [CHR 0x0D], [CHR 0x20],
      [CHR 0xC2, CHR 0x85], [CHR 0xC2, CHR 0xA0],
      [CHR 0xE1, CHR 0x9A, CHR 0x80],
      [CHR 0xE2, CHR 0x80, CHR 0x80], [CHR 0xE2, CHR 0x80, CHR 0x81],
      [CHR 0xE2, CHR 0x80, CHR 0x82], [CHR 0xE2, CHR 0x80, CHR 0x83],
      [CHR 0xE2, CHR 0x80, CHR 0x84], [CHR 0xE2, CHR 0x80, CHR 0x85],
      [CHR 0xE2, CHR 0x80, CHR 0x86], [CHR 0xE2, CHR 0x80, CHR 0x87],
      [CHR 0xE2, CHR 0x80, CHR 0x88], [CHR 0xE2, CHR 0x80, CHR 0x89],
      [CHR 0xE2, CHR 0x80, CHR 0x8A],
      [CHR 0xE2, CHR 0x80, CHR 0xA8], [CHR 0xE2, CHR 0x80, CHR 0xA9],
      [CHR 0xE2, CHR 0x80, CHR 0xAF],
      [CHR 0xE2, CHR 0x81, CHR 0x9F],
      [CHR 0xE3, CHR 0x80, CHR 0x80]]"

definition isSpaceRune :: "string \<Rightarrow> bool" where
  "isSpaceRune w = (w \<in> set spaceRunes)"

text \<open>
  \<open>stripRunes P s\<close> removes runes from the front of \<open>s\<close> as long as the bytes of the
  first rune satisfy \<open>P\<close>. Trimming on the left reads the bytes in order; trimming on the
  right reads them from the end, so it runs on the reversed string and reverses each
  candidate back.
\<close>

fun stripRunes :: "(string \<Rightarrow> bool) \<Rightarrow> string \<Rightarrow> string" where
  "stripRunes P (a # b # c # s) =
     (if P [a] then stripRunes P (b # c # s)
      else if P [a, b] then stripRunes P (c # s)
      else if P [a, b, c] then stripRunes P s
      else a # b # c # s)"
| "stripRunes P [a, b] =
     (if P [a] then stripRunes P [b] else if P [a, b] then [] else [a, b])"
| "stripRunes P [a] = (if P [a] then [] else [a])"
| "stripRunes P [] = []"

definition TrimLeft :: "string \<Rightarrow> string" where
  "TrimLeft s = stripRunes isSpaceRune s"

definition TrimRight :: "string \<Rightarrow> string" where
  "TrimRight s = rev (stripRunes (\<lambda>w. isSpaceRune (rev w)) (rev s))"

definition TrimSpace :: "string \<Rightarrow> string" where
  "TrimSpace s = TrimRight (TrimLeft s)"

section \<open>Package bufio: a Scanner splitting into lines\<close>

text \<open>
  \<open>bufio.NewScanner\<close> with the default split function \<open>ScanLines\<close>: each call of
  \<open>Scan\<close> yields the bytes up to the next newline, without the newline and without one
  carriage return before it; the last line needs no newline, and an empty last line is
  not yielded. The scanner's buffer holds at most \<open>MaxScanTokenSize\<close> bytes, in which a
  line and its newline must fit: when the buffer is full and holds no newline, \<open>Scan\<close>
  records \<open>ErrTooLong\<close> and returns \<open>false\<close>, now and at every later call. Neither
  program reads \<open>scanner.Err()\<close>, so for them the input ends there.
  \<open>scanLines_from cur rest\<close> is the list of lines yielded when \<open>cur\<close> is the part of the
  current line already read and \<open>rest\<close> the unread input.
\<close>

definition MaxScanTokenSize :: nat where
  "MaxScanTokenSize = 64 * 1024"

definition dropCR :: "string \<Rightarrow> string" where
  "dropCR data = (if data \<noteq> [] \<and> last data = CHR 0x0D then butlast data else data)"

fun scanLines_from :: "string \<Rightarrow> string \<Rightarrow> string list" where
  "scanLines_from cur [] =
     (if cur = [] \<or> MaxScanTokenSize \<le> length cur then [] else [dropCR cur])"
| "scanLines_from cur (c # rest) =
     (if c = CHR 0x0A
      then (if MaxScanTokenSize \<le> length cur then []
            else dropCR cur # scanLines_from [] rest)
      else scanLines_from (cur @ [c]) rest)"

definition scanLines :: "string \<Rightarrow> string list" where
  "scanLines input = scanLines_from [] input"

section \<open>The world outside the program\<close>

text \<open>
  Everything the programs obtain from outside is a field of \<open>world\<close>: the listing of the
  current directory (\<open>os.ReadDir\<close> returns the entries it could read and an error), the
  outcome of running an external command, the decoding of JSON text by
  \<open>json.Unmarshal\<close> into the two target types, the operator's choice in a
  \<open>promptui.Select\<close>, and the order in which a \<open>range\<close> loop visits the keys of a map,
  which Go leaves unspecified.
\<close>

record DirEntry =
  Name_of :: string
  IsDir :: bool

record Device =
  Name :: string
  UDID :: string
  Avail :: bool

text \<open>
  \<open>DeviceList.Devices\<close> is a \<open>map[string][]Device\<close>. It is only ever iterated, so it is
  represented by its groups in the order in which the \<open>range\<close> loop visits them; the keys
  of the list are distinct.
\<close>

type_synonym DeviceList = "(string \<times> Device list) list"

text \<open>
  A decoded JSON value of type \<open>any\<close>: \<open>nil\<close>, \<open>bool\<close>, \<open>float64\<close> (its 64 bits),
  \<open>string\<close>, \<open>[]any\<close> or \<open>map[string]any\<close>.
\<close>

datatype any =
    ANil
  | ABool bool
  | AFloat64 "64 word"
  | AString string
  | ASlice "any list"
  | AMap "string \<Rightarrow> any option"

record proc =
  stdout :: string
  merged :: string
  failure :: "go_error option"

record world =
  ReadDir :: "DirEntry list \<times> go_error option"
  Run :: "string \<Rightarrow> string list \<Rightarrow> proc"
  Unmarshal_DeviceList :: "string \<Rightarrow> go_error + DeviceList"
  Unmarshal_settings :: "string \<Rightarrow> go_error + (string \<Rightarrow> any option) list"
  Select :: "string \<Rightarrow> string list \<Rightarrow> go_error + string"
  rangeKeys :: "(string \<Rightarrow> string option) \<Rightarrow> string list"

section \<open>RunShellCommand and GetSchemes\<close>

text \<open>
  \<open>RunShellCommand\<close> sends standard output and standard error to one buffer; \<open>merged\<close>
  is what that buffer holds when the command has ended.
\<close>

definition RunShellCommand :: "world \<Rightarrow> string \<Rightarrow> string list \<Rightarrow> string go_result" where
  "RunShellCommand w command args =
     (let p = Run w command args in
      case failure p of
        Some err \<Rightarrow>
          Err (GoError (''error running command: '' @ Error err @ [CHR 0x0A] @ merged p))
      | None \<Rightarrow> Ok (merged p))"

text \<open>The loop of \<open>GetSchemes\<close> over the scanned lines, with its two variables.\<close>

fun GetSchemes_loop :: "bool \<Rightarrow> string list \<Rightarrow> string list \<Rightarrow> string list" where
  "GetSchemes_loop inSchemes schemes [] = schemes"
| "GetSchemes_loop inSchemes schemes (text # rest) =
     (let line = TrimSpace text;
          schemes' = (if inSchemes \<and> line \<noteq> [] then schemes @ [line] else schemes);
          inSchemes' = (if Contains line ''Schemes:'' then True else inSchemes)
      in GetSchemes_loop inSchemes' schemes' rest)"

text \<open>\<open>GetSchemes\<close> from the output of the command on: the scan and the final test.\<close>

definition schemes_of_output :: "string \<Rightarrow> string list go_result" where
  "schemes_of_output output =
     (let schemes = GetSchemes_loop False [] (scanLines output) in
      if length schemes = 0 then Err (GoError ''no schemes found'') else Ok schemes)"

definition GetSchemes :: "world \<Rightarrow> string list go_result" where
  "GetSchemes w =
     and_then (RunShellCommand w ''xcodebuild'' [''-list'']) schemes_of_output"

section \<open>detectXcodeProject\<close>

text \<open>
  \<open>filepath.Ext(path)\<close>: the suffix of \<open>path\<close> starting at the last dot of its last
  element, empty if that element has no dot. The search runs from the end and stops at a
  path separator.
\<close>

fun Ext :: "string \<Rightarrow> string" where
  "Ext [] = []"
| "Ext (c # cs) =
     (let later = Ext cs in
      if later \<noteq> [] then later
      else if CHR ''/'' \<in> set cs then []
      else if c = CHR ''.'' then c # cs
      else [])"

fun detect_loop :: "string \<Rightarrow> string \<Rightarrow> DirEntry list \<Rightarrow> string \<times> string" where
  "detect_loop project workspace [] = (project, workspace)"
| "detect_loop project workspace (file # files) =
     (if IsDir file
      then (if Ext (Name_of file) = ''.xcworkspace''
            then detect_loop project (Name_of file) files
            else if Ext (Name_of file) = ''.xcodeproj''
            then detect_loop (Name_of file) workspace files
            else detect_loop project workspace files)
      else detect_loop project workspace files)"

text \<open>\<open>detectXcodeProject\<close> from the listing on: the loop and the final choice.\<close>

definition project_among :: "DirEntry list \<Rightarrow> string go_result" where
  "project_among files =
     (case detect_loop [] [] files of
        (project, workspace) \<Rightarrow>
          if workspace \<noteq> [] then Ok workspace
          else if project \<noteq> [] then Ok project
          else Err (GoError
            ''no .xcodeproj or .xcworkspace found in the current directory''))"

definition detectXcodeProject :: "world \<Rightarrow> string go_result" where
  "detectXcodeProject w =
     (case ReadDir w of
        (files, Some err) \<Rightarrow> Err err
      | (files, None) \<Rightarrow> project_among files)"

section \<open>GetDevices of xcode-runner.go: the JSON listing\<close>

text \<open>
  The two nested \<open>range\<close> loops: over the devices of one group, and over the groups in
  the order of the visit. \<open>devices[device.Name] = device.UDID\<close> overwrites an earlier
  entry of the same name.
\<close>

fun group_loop :: "(string \<Rightarrow> string option) \<Rightarrow> Device list \<Rightarrow> (string \<Rightarrow> string option)" where
  "group_loop devices [] = devices"
| "group_loop devices (device # rest) =
     (if Avail device
      then group_loop (devices(Name device \<mapsto> UDID device)) rest
      else group_loop devices rest)"

fun groups_loop :: "(string \<Rightarrow> string option) \<Rightarrow> DeviceList \<Rightarrow> (string \<Rightarrow> string option)" where
  "groups_loop devices [] = devices"
| "groups_loop devices ((groupName, deviceGroup) # rest) =
     groups_loop (group_loop devices deviceGroup) rest"

text \<open>\<open>GetDevices\<close> from the decoded listing on: the loops and the final test.\<close>

definition devices_of_list :: "DeviceList \<Rightarrow> (string \<Rightarrow> string option) go_result" where
  "devices_of_list deviceList =
     (let devices = groups_loop Map.empty deviceList in
      if devices = Map.empty
      then Err (GoError ''no available simulators found'')
      else Ok devices)"

text \<open>\<open>cmd.Output()\<close> returns what the command wrote to standard output, and its failure.\<close>

definition GetDevices_simctl :: "world \<Rightarrow> (string \<Rightarrow> string option) go_result" where
  "GetDevices_simctl w =
     (let p = Run w ''xcrun'' [''simctl'', ''list'', ''devices'', ''--json''] in
      case failure p of
        Some err \<Rightarrow> Err err
      | None \<Rightarrow>
          (case Unmarshal_DeviceList w (stdout p) of
             Inl err \<Rightarrow> Err err
           | Inr deviceList \<Rightarrow> devices_of_list deviceList))"

section \<open>GetDevices of the xctrace program: the text listing\<close>

text \<open>
  The regular expression
  \<^verbatim>\<open>^(.+) \(([A-F0-9]{8}-[A-F0-9]{4}-[A-F0-9]{4}-[A-F0-9]{4}-[A-F0-9]{12}|[0-9]{8}-[0-9]{16})\)$\<close>
  is anchored at both ends, and both alternatives have a fixed length. A text matches it
  when it ends with a space, an opening parenthesis, one of the two alternatives and a
  closing parenthesis, and at least one character other than a newline, and no newline,
  comes before. An alternative is a list of character classes, one per position.
\<close>

definition upperHex :: "char \<Rightarrow> bool" where
  "upperHex c = (c \<in> set ''ABCDEF0123456789'')"

definition digit :: "char \<Rightarrow> bool" where
  "digit c = (c \<in> set ''0123456789'')"

definition hyphen :: "char \<Rightarrow> bool" where
  "hyphen c = (c = CHR ''-'')"

definition re_uuid :: "(char \<Rightarrow> bool) list" where
  "re_uuid =
     replicate 8 upperHex @ [hyphen] @ replicate 4 upperHex @ [hyphen] @
     replicate 4 upperHex @ [hyphen] @ replicate 4 upperHex @ [hyphen] @
     replicate 12 upperHex"

definition re_ecid :: "(char \<Rightarrow> bool) list" where
  "re_ecid = replicate 8 digit @ [hyphen] @ replicate 16 digit"

definition re_alternative :: "(char \<Rightarrow> bool) list \<Rightarrow> string \<Rightarrow> bool" where
  "re_alternative classes line =
     (let k = length classes; n = length line - (k + 3) in
      k + 4 \<le> length line \<and>
      CHR 0x0A \<notin> set (take n line) \<and>
      take 2 (drop n line) = '' ('' \<and>
      list_all2 (\<lambda>cls c. cls c) classes (take k (drop (n + 2) line)) \<and>
      drop (n + 2 + k) line = '')'')"

definition re_MatchString :: "string \<Rightarrow> bool" where
  "re_MatchString line = (re_alternative re_uuid line \<or> re_alternative re_ecid line)"

text \<open>
  The body of the loop for a line of a Devices or Simulators section: the entry the line
  adds to the map, if any. Each slice expression is checked as Go checks it.
\<close>

definition device_of_line :: "string \<Rightarrow> (string \<times> string) option go_result" where
  "device_of_line line =
     (let lastParenIndex = LastIndex line ''('' in
      if lastParenIndex = - 1 then Ok None
      else
        and_then (slice_from line (lastParenIndex + 1)) (\<lambda>udidPart.
        let udid = TrimSuffix udidPart '')'' in
        and_then (slice_to line (lastParenIndex - 1)) (\<lambda>deviceName.
        let versionParenIndex = LastIndex deviceName ''('' in
        and_then (if versionParenIndex \<noteq> - 1
              then and_then (slice_to deviceName versionParenIndex) (\<lambda>s. Ok (TrimSpace s))
              else Ok deviceName) (\<lambda>deviceName.
        if re_MatchString line \<or>
           (length udid > 0 \<and>
            (Contains udid ''-'' \<or> ContainsAny udid ''0123456789ABCDEF''))
        then Ok (Some (deviceName, udid))
        else Ok None))))"

fun GetDevices_loop ::
  "string \<Rightarrow> (string \<Rightarrow> string option) \<Rightarrow> string list \<Rightarrow> (string \<Rightarrow> string option) go_result" where
  "GetDevices_loop currentSection devices [] = Ok devices"
| "GetDevices_loop currentSection devices (line # rest) =
     (if HasPrefix line ''== '' then GetDevices_loop line devices rest
      else if line = [] \<or> currentSection = ''== Devices Offline ==''
      then GetDevices_loop currentSection devices rest
      else if currentSection = ''== Devices =='' \<or> currentSection = ''== Simulators ==''
      then and_then (device_of_line line) (\<lambda>entry.
             case entry of
               None \<Rightarrow> GetDevices_loop currentSection devices rest
             | Some (deviceName, udid) \<Rightarrow>
                 GetDevices_loop currentSection (devices(deviceName \<mapsto> udid)) rest)
      else GetDevices_loop currentSection devices rest)"

text \<open>\<open>GetDevices\<close> from the scanned lines on: the loop and the final test.\<close>

definition GetDevices_lines :: "string list \<Rightarrow> (string \<Rightarrow> string option) go_result" where
  "GetDevices_lines lines =
     and_then (GetDevices_loop [] Map.empty lines) (\<lambda>devices.
       if devices = Map.empty
       then Err (GoError ''no available simulators found'')
       else Ok devices)"

definition GetDevices_xctrace :: "world \<Rightarrow> (string \<Rightarrow> string option) go_result" where
  "GetDevices_xctrace w =
     (let p = Run w ''xcrun'' [''xctrace'', ''list'', ''devices''] in
      case failure p of
        Some err \<Rightarrow> Err err
      | None \<Rightarrow> GetDevices_lines (scanLines (stdout p)))"

section \<open>GetBuildSettings\<close>

text \<open>
  A type assertion \<open>x.(T)\<close> without the second result panics when \<open>x\<close> does not hold a
  \<open>T\<close>. Indexing a map with a key it does not have yields \<open>nil\<close>, which holds no type.
\<close>

definition assert_map :: "any option \<Rightarrow> (string \<Rightarrow> any option) go_result" where
  "assert_map x =
     (case x of
        Some (AMap m) \<Rightarrow> Ok m
      | _ \<Rightarrow> Panic (InterfaceConversion ''map[string]interface {}''))"

definition assert_string :: "any option \<Rightarrow> string go_result" where
  "assert_string x =
     (case x of
        Some (AString s) \<Rightarrow> Ok s
      | _ \<Rightarrow> Panic (InterfaceConversion ''string''))"

text \<open>The part of \<open>GetBuildSettings\<close> after the decoding.\<close>

definition settings_of :: "(string \<Rightarrow> any option) list \<Rightarrow> (string \<times> string) go_result" where
  "settings_of buildSettings =
     (case buildSettings of
        first # _ \<Rightarrow>
          and_then (assert_map (first ''buildSettings'')) (\<lambda>settings.
          and_then (assert_string (settings ''BUILT_PRODUCTS_DIR'')) (\<lambda>builtProductsDir.
          and_then (assert_string (settings ''CONTENTS_FOLDER_PATH'')) (\<lambda>contentsFolderPath.
          and_then (assert_string (settings ''PRODUCT_BUNDLE_IDENTIFIER'')) (\<lambda>bundleIdentifier.
          let appPath = builtProductsDir @ ''/'' @ contentsFolderPath in
          Ok (appPath, bundleIdentifier)))))
      | [] \<Rightarrow> Err (GoError ''Unable to find the required build settings''))"

definition GetBuildSettings :: "world \<Rightarrow> string \<Rightarrow> string \<Rightarrow> (string \<times> string) go_result" where
  "GetBuildSettings w selectedScheme deviceID =
     (let p = Run w ''xcodebuild''
                [''-scheme'', selectedScheme, ''-destination'', ''id='' @ deviceID,
                 ''-showBuildSettings'', ''-json''] in
      case failure p of
        Some err \<Rightarrow> Err err
      | None \<Rightarrow>
          (case Unmarshal_settings w (stdout p) of
             Inl err \<Rightarrow> Err err
           | Inr buildSettings \<Rightarrow> settings_of buildSettings))"

section \<open>main\<close>

text \<open>
  A run of \<open>main\<close> is the list of what it prints and of the commands of its build and
  deploy stage, in order. A panic ends the run. The messages hold the UTF-8 bytes of the
  symbols of the source.
\<close>

datatype event =
    Println string
  | Printf string
  | Exec string "string list"
  | Crash go_panic

definition rocket :: string where "rocket = [CHR 0xF0, CHR 0x9F, CHR 0x9A, CHR 0x80]"
definition cross :: string where "cross = [CHR 0xE2, CHR 0x9D, CHR 0x8C]"
definition folder :: string where "folder = [CHR 0xF0, CHR 0x9F, CHR 0x93, CHR 0x82]"
definition hammer :: string where "hammer = [CHR 0xF0, CHR 0x9F, CHR 0x94, CHR 0xA8]"
definition phone :: string where "phone = [CHR 0xF0, CHR 0x9F, CHR 0x93, CHR 0xB2]"
definition link :: string where "link = [CHR 0xF0, CHR 0x9F, CHR 0x94, CHR 0x97]"
definition check :: string where "check = [CHR 0xE2, CHR 0x9C, CHR 0x85]"

definition PromptUser :: "world \<Rightarrow> string \<Rightarrow> string list \<Rightarrow> string go_result" where
  "PromptUser w label items =
     (case Select w label items of Inl err \<Rightarrow> Err err | Inr result \<Rightarrow> Ok result)"

text \<open>
  The idiom \<open>if err != nil { fmt.Println(label, err); return }\<close>: \<open>Println\<close> separates
  its operands by a space.
\<close>

definition or_report :: "'a go_result \<Rightarrow> string \<Rightarrow> ('a \<Rightarrow> event list) \<Rightarrow> event list" where
  "or_report r label continue =
     (case r of
        Ok x \<Rightarrow> continue x
      | Err err \<Rightarrow> [Println (label @ '' '' @ Error err)]
      | Panic p \<Rightarrow> [Crash p])"

text \<open>The two messages that open the branches of the deploy stage.\<close>

definition simulator_notice :: string where
  "simulator_notice = [CHR 0x0A] @ phone @ '' Installing & Launching App on Simulator...''"

definition device_notice :: string where
  "device_notice = [CHR 0x0A] @ link @ '' Deploying to Physical Device...''"

text \<open>The simulator branch, the same in both programs.\<close>

definition simulator_branch :: "string \<Rightarrow> string \<Rightarrow> string \<Rightarrow> event list" where
  "simulator_branch deviceUDID appPath bundleIdentifier =
     [Println simulator_notice,
      Exec ''xcrun'' [''simctl'', ''bootstatus'', deviceUDID, ''-b''],
      Exec ''xcrun'' [''simctl'', ''install'', deviceUDID, appPath],
      Exec ''xcrun'' [''simctl'', ''launch'', deviceUDID, bundleIdentifier]]"

text \<open>
  \<open>main\<close> of xcode-runner.go from the build on: the branch is taken on the device
  identifier.
\<close>

definition build_and_deploy_simctl ::
  "world \<Rightarrow> string \<Rightarrow> string \<Rightarrow> string \<Rightarrow> string \<Rightarrow> event list" where
  "build_and_deploy_simctl w selectedScheme deviceUDID appPath bundleIdentifier =
     (let args = [''-scheme'', selectedScheme, ''-destination'', ''id='' @ deviceUDID,
                  ''clean'', ''build''] in
      Exec ''xcodebuild'' args #
      (case failure (Run w ''xcodebuild'' args) of
         Some err \<Rightarrow> [Println (cross @ '' Build failed!'')]
       | None \<Rightarrow>
           (if Contains deviceUDID ''-''
            then simulator_branch deviceUDID appPath bundleIdentifier
            else [Println device_notice,
                  Exec ''ios-deploy''
                    [''--bundle'', ''build/Debug-iphoneos/*.app'', ''--id'', deviceUDID,
                     ''--debug'']]) @
           [Println ([CHR 0x0A] @ check @ '' Done!'')]))"

text \<open>
  \<open>main\<close> of the xctrace program from the computation of \<open>isSim\<close> on: the branch is
  taken on the artifact path.
\<close>

definition build_and_deploy_xctrace ::
  "world \<Rightarrow> string \<Rightarrow> string \<Rightarrow> string \<Rightarrow> string \<Rightarrow> event list" where
  "build_and_deploy_xctrace w selectedScheme deviceUDID appPath bundleIdentifier =
     (let isSim = Contains appPath ''simulator'';
          args = [''-scheme'', selectedScheme, ''-destination'', ''id='' @ deviceUDID,
                  ''-configuration'', ''Debug'', ''build''] in
      Exec ''xcodebuild'' args #
      (case failure (Run w ''xcodebuild'' args) of
         Some err \<Rightarrow> [Println (cross @ '' Build failed!'')]
       | None \<Rightarrow>
           (if isSim
            then simulator_branch deviceUDID appPath bundleIdentifier
            else [Println device_notice,
                  Exec ''xcrun''
                    [''devicectl'', ''device'', ''install'', ''app'', ''--device'',
                     deviceUDID, ''--bundle'', appPath],
                  Exec ''xcrun''
                    [''devicectl'', ''device'', ''process'', ''launch'', ''--device'',
                     deviceUDID, ''--start-stopped'', bundleIdentifier]]) @
           [Println ([CHR 0x0A] @ check @ '' Done!'')]))"

text \<open>
  The stages shared by both programs once a scheme is selected: list the devices, let
  the operator select one, look its identifier up, query the build settings.
\<close>

definition select_device_and_build ::
  "world \<Rightarrow> (string \<Rightarrow> string option) go_result \<Rightarrow>
   (world \<Rightarrow> string \<Rightarrow> string \<Rightarrow> string \<Rightarrow> string \<Rightarrow> event list) \<Rightarrow> string \<Rightarrow> event list" where
  "select_device_and_build w listed build_and_deploy selectedScheme =
     or_report listed (cross @ '' Error fetching devices:'') (\<lambda>devices.
     let deviceNames = rangeKeys w devices in
     or_report (PromptUser w ''Select a Device'' deviceNames)
       (cross @ '' Error selecting device:'') (\<lambda>selectedDevice.
     case devices selectedDevice of
       None \<Rightarrow> [Println (cross @ '' Error: Could not find UDID for selected device.'')]
     | Some deviceUDID \<Rightarrow>
         Printf ([CHR 0x0A] @ hammer @ '' Building '' @ selectedScheme @ '' for '' @
                 selectedDevice @ '' ('' @ deviceUDID @ '')...'' @ [CHR 0x0A]) #
         or_report (GetBuildSettings w selectedScheme deviceUDID)
           (cross @ '' Error getting build settings:'') (\<lambda>(appPath, bundleIdentifier).
         if appPath = [] \<or> bundleIdentifier = []
         then [Println (cross @ '' Error: Could not find app path or bundle identifier.'')]
         else build_and_deploy w selectedScheme deviceUDID appPath bundleIdentifier)))"

definition main_simctl :: "world \<Rightarrow> event list" where
  "main_simctl w =
     Println (rocket @ '' Xcode Runner CLI'') #
     or_report (detectXcodeProject w) (cross @ '' Error:'') (\<lambda>projectPath.
     Println (folder @ '' Detected Xcode project: '' @ projectPath) #
     or_report (GetSchemes w) (cross @ '' Error fetching schemes:'') (\<lambda>schemes.
     or_report (PromptUser w ''Select a Scheme'' schemes)
       (cross @ '' Error selecting scheme:'') (\<lambda>selectedScheme.
     select_device_and_build w (GetDevices_simctl w) build_and_deploy_simctl
       selectedScheme)))"

definition main_xctrace :: "world \<Rightarrow> event list" where
  "main_xctrace w =
     Println (rocket @ '' Xcode Runner CLI'') #
     or_report (detectXcodeProject w) (cross @ '' Error:'') (\<lambda>projectPath.
     Println (folder @ '' Detected Xcode project: '' @ projectPath) #
     or_report (GetSchemes w) (cross @ '' Error fetching schemes:'') (\<lambda>schemes.
     case schemes of
       [] \<Rightarrow> [Crash (IndexOutOfRange 0)]
     | selectedScheme # _ \<Rightarrow>
         select_device_and_build w (GetDevices_xctrace w) build_and_deploy_xctrace
           selectedScheme))"

section \<open>Notions used in the statements\<close>

text \<open>
  A world in which the directory is empty, every command succeeds and prints nothing,
  both decodings yield an empty value and the operator aborts every selection; the
  examples change single fields of it.
\<close>

definition printing :: "string \<Rightarrow> string \<Rightarrow> string list \<Rightarrow> proc" where
  "printing text command args = \<lparr>stdout = text, merged = text, failure = None\<rparr>"

definition decoding :: "'a \<Rightarrow> string \<Rightarrow> go_error + 'a" where
  "decoding v json = Inr v"

definition aborting :: "string \<Rightarrow> string list \<Rightarrow> go_error + string" where
  "aborting label items = Inl (GoError ''^C'')"

definition no_keys :: "(string \<Rightarrow> string option) \<Rightarrow> string list" where
  "no_keys devices = []"

definition silent_world :: world where
  "silent_world =
     \<lparr>ReadDir = ([], None),
      Run = printing [],
      Unmarshal_DeviceList = decoding [],
      Unmarshal_settings = decoding [],
      Select = aborting,
      rangeKeys = no_keys\<rparr>"

text \<open>
  The lines of a text, for the statements about the scanner: a line ends at a newline or
  at the end of the text, and an empty rest after the last newline is no line.
  \<open>rawLines\<close> keeps a carriage return before the newline, \<open>textLines\<close> drops it. The
  schemes a listing declares are the lines after the first line that contains the marker
  \<open>Schemes:\<close>, trimmed, without those that are blank; there are none when no line
  contains the marker.
\<close>

fun rawLines_from :: "string \<Rightarrow> string \<Rightarrow> string list" where
  "rawLines_from cur [] = (if cur = [] then [] else [cur])"
| "rawLines_from cur (c # rest) =
     (if c = CHR 0x0A then cur # rawLines_from [] rest
      else rawLines_from (cur @ [c]) rest)"

definition rawLines :: "string \<Rightarrow> string list" where
  "rawLines input = rawLines_from [] input"

definition textLines :: "string \<Rightarrow> string list" where
  "textLines input = map dropCR (rawLines input)"

definition schemes_after_header :: "string list \<Rightarrow> string list" where
  "schemes_after_header ls =
     filter (\<lambda>l. l \<noteq> [])
       (map TrimSpace (drop 1 (dropWhile (\<lambda>l. \<not> Contains l ''Schemes:'') ls)))"

text \<open>A listing whose first line has 65536 bytes.\<close>

definition long_line_output :: string where
  "long_line_output =
     replicate 65536 CHR ''a'' @ ''\<newline>Schemes:\<newline>Debug\<newline>''"

text \<open>The bytes that occur in the encoding of some white-space rune.\<close>

definition spaceBytes :: "char set" where
  "spaceBytes = \<Union> (set ` set spaceRunes)"

text \<open>
  The locator looks among the subdirectories of the listing: a workspace entry is a
  subdirectory with the extension \<open>.xcworkspace\<close>, a project entry one with the extension
  \<open>.xcodeproj\<close>.
\<close>

definition is_workspace :: "DirEntry \<Rightarrow> bool" where
  "is_workspace f = (IsDir f \<and> Ext (Name_of f) = ''.xcworkspace'')"

definition is_project :: "DirEntry \<Rightarrow> bool" where
  "is_project f = (IsDir f \<and> Ext (Name_of f) = ''.xcodeproj'')"

text \<open>
  The device records of a decoded listing in the order in which the loops see them, and
  the listing without its unavailable records.
\<close>

definition records_seen :: "DeviceList \<Rightarrow> Device list" where
  "records_seen deviceList = concat (map snd deviceList)"

definition available_only :: "DeviceList \<Rightarrow> DeviceList" where
  "available_only deviceList = map (\<lambda>(groupName, ds). (groupName, filter Avail ds)) deviceList"

definition named_available :: "string \<Rightarrow> Device \<Rightarrow> bool" where
  "named_available n d = (Avail d \<and> Name d = n)"

text \<open>
  One name in two groups, and the two orders in which a \<open>range\<close> loop may visit the two
  keys of that map.
\<close>

definition two_groups :: DeviceList where
  "two_groups =
     [(''iOS 17.0'', [\<lparr>Name = ''iPhone 15'', UDID = ''AAAA-1111'', Avail = True\<rparr>]),
      (''iOS 18.0'', [\<lparr>Name = ''iPhone 15'', UDID = ''BBBB-2222'', Avail = True\<rparr>])]"

definition identifier_of :: "(string \<Rightarrow> string option) go_result \<Rightarrow> string \<Rightarrow> string option" where
  "identifier_of r n = (case r of Ok devices \<Rightarrow> devices n | _ \<Rightarrow> None)"





text \<open>
  The target a run deploys to, read off the message that opens the branch it took.
\<close>

datatype target = Simulator | PhysicalDevice

definition target_of_run :: "event list \<Rightarrow> target option" where
  "target_of_run run =
     (if Println simulator_notice \<in> set run then Some Simulator
      else if Println device_notice \<in> set run then Some PhysicalDevice
      else None)"

text \<open>
  A world in which both programs get as far as the deploy stage: the directory holds
  \<open>App.xcodeproj\<close>, the scheme listing declares \<open>App\<close>, both device listings hold one
  device \<open>iPhone\<close> with the given identifier, the build settings give the given output
  directory, the operator selects the first item, and the build succeeds.
\<close>

definition demo_run :: "string \<Rightarrow> string \<Rightarrow> string list \<Rightarrow> proc" where
  "demo_run deviceUDID command args =
     (if command = ''xcodebuild'' \<and> args = [''-list'']
      then printing ''Schemes:\<newline>    App\<newline>'' command args
      else if command = ''xcrun'' \<and> args = [''xctrace'', ''list'', ''devices'']
      then printing (''== Devices ==\<newline>iPhone (17.0) ('' @ deviceUDID @ '')\<newline>'')
             command args
      else printing [] command args)"

definition choosing_first :: "string \<Rightarrow> string list \<Rightarrow> go_error + string" where
  "choosing_first label items =
     (case items of [] \<Rightarrow> Inl (GoError ''^C'') | item # _ \<Rightarrow> Inr item)"

definition keys_iPhone :: "(string \<Rightarrow> string option) \<Rightarrow> string list" where
  "keys_iPhone devices = (if devices ''iPhone'' = None then [] else [''iPhone''])"

definition demo_world :: "string \<Rightarrow> string \<Rightarrow> world" where
  "demo_world deviceUDID builtProductsDir =
     \<lparr>ReadDir = ([\<lparr>Name_of = ''App.xcodeproj'', IsDir = True\<rparr>], None),
      Run = demo_run deviceUDID,
      Unmarshal_DeviceList = decoding
        [(''iOS 17.0'', [\<lparr>Name = ''iPhone'', UDID = deviceUDID, Avail = True\<rparr>])],
      Unmarshal_settings = decoding
        [[''buildSettings'' \<mapsto> AMap
            [''BUILT_PRODUCTS_DIR'' \<mapsto> AString builtProductsDir,
             ''CONTENTS_FOLDER_PATH'' \<mapsto> AString ''App.app'',
             ''PRODUCT_BUNDLE_IDENTIFIER'' \<mapsto> AString ''com.example.App'']]],
      Select = choosing_first,
      rangeKeys = keys_iPhone\<rparr>"

section \<open>The scheme listing\<close>

subsection \<open>The scanner on short lines\<close>

lemma scanLines_from_short:
  "\<forall>l \<in> set (rawLines_from cur rest). length l < MaxScanTokenSize \<Longrightarrow>
   scanLines_from cur rest = map dropCR (rawLines_from cur rest)"
  by (induction rest arbitrary: cur) (auto split: if_splits)

subsection \<open>Trimming keeps the marker\<close>

lemma Contains_sublist: "Contains s m \<longleftrightarrow> sublist m s"
  by (induction s) (auto simp: sublist_Cons_right)

lemma stripRunes_decomp:
  "(\<And>w. P w \<Longrightarrow> set w \<subseteq> B) \<Longrightarrow> \<exists>p. s = p @ stripRunes P s \<and> set p \<subseteq> B"
proof (induction P s rule: stripRunes.induct)
  case (1 P a b c s)
  note bytes = "1.prems"
  show ?case
  proof (cases "P [a]")
    case True
    with 1 obtain p where "b # c # s = p @ stripRunes P (b # c # s)" and "set p \<subseteq> B"
      by blast
    with True bytes [of "[a]"]
    have "a # b # c # s = (a # p) @ stripRunes P (a # b # c # s) \<and> set (a # p) \<subseteq> B"
      by simp
    then show ?thesis by blast
  next
    case one: False
    show ?thesis
    proof (cases "P [a, b]")
      case True
      with one 1 obtain p where "c # s = p @ stripRunes P (c # s)" and "set p \<subseteq> B"
        by blast
      with one True bytes [of "[a, b]"]
      have "a # b # c # s = (a # b # p) @ stripRunes P (a # b # c # s) \<and>
          set (a # b # p) \<subseteq> B"
        by simp
      then show ?thesis by blast
    next
      case two: False
      show ?thesis
      proof (cases "P [a, b, c]")
        case True
        with one two 1 obtain p where "s = p @ stripRunes P s" and "set p \<subseteq> B"
          by blast
        with one two True bytes [of "[a, b, c]"]
        have "a # b # c # s = (a # b # c # p) @ stripRunes P (a # b # c # s) \<and>
            set (a # b # c # p) \<subseteq> B"
          by simp
        then show ?thesis by blast
      next
        case False
        with one two have "a # b # c # s = [] @ stripRunes P (a # b # c # s) \<and> set [] \<subseteq> B"
          by simp
        then show ?thesis by blast
      qed
    qed
  qed
next
  case (2 P a b)
  note bytes = "2.prems"
  show ?case
  proof (cases "P [a]")
    case True
    with 2 obtain p where "[b] = p @ stripRunes P [b]" and "set p \<subseteq> B"
      by blast
    with True bytes [of "[a]"]
    have "[a, b] = (a # p) @ stripRunes P [a, b] \<and> set (a # p) \<subseteq> B"
      by simp
    then show ?thesis by blast
  next
    case one: False
    show ?thesis
    proof (cases "P [a, b]")
      case True
      with one bytes [of "[a, b]"]
      have "[a, b] = [a, b] @ stripRunes P [a, b] \<and> set [a, b] \<subseteq> B"
        by simp
      then show ?thesis by blast
    next
      case False
      with one have "[a, b] = [] @ stripRunes P [a, b] \<and> set [] \<subseteq> B"
        by simp
      then show ?thesis by blast
    qed
  qed
next
  case (3 P a)
  show ?case
  proof (cases "P [a]")
    case True
    with "3.prems" [of "[a]"] have "[a] = [a] @ stripRunes P [a] \<and> set [a] \<subseteq> B"
      by simp
    then show ?thesis by blast
  next
    case False
    then have "[a] = [] @ stripRunes P [a] \<and> set [] \<subseteq> B"
      by simp
    then show ?thesis by blast
  qed
next
  case (4 P)
  show ?case by simp
qed

lemma Contains_skip:
  assumes "set p \<subseteq> B" and "m \<noteq> []" and "hd m \<notin> B"
  shows "Contains (p @ s) m = Contains s m"
  using assms by (induction p) (auto simp: prefix_Cons)

lemma Contains_rev: "Contains (rev s) (rev m) = Contains s m"
  by (simp add: Contains_sublist)

lemma spaceRune_bytes: "isSpaceRune w \<Longrightarrow> set w \<subseteq> spaceBytes"
  by (auto simp: isSpaceRune_def spaceBytes_def)

lemma Contains_TrimLeft:
  assumes "m \<noteq> []" and "hd m \<notin> spaceBytes"
  shows "Contains (TrimLeft s) m = Contains s m"
proof -
  obtain p where "s = p @ TrimLeft s" and "set p \<subseteq> spaceBytes"
    using stripRunes_decomp [of isSpaceRune spaceBytes s] spaceRune_bytes
    by (auto simp: TrimLeft_def)
  then show ?thesis
    using Contains_skip [OF _ assms, of p "TrimLeft s"] by simp
qed

lemma Contains_TrimRight:
  assumes "m \<noteq> []" and "last m \<notin> spaceBytes"
  shows "Contains (TrimRight s) m = Contains s m"
proof -
  let ?t = "stripRunes (\<lambda>w. isSpaceRune (rev w)) (rev s)"
  have "\<And>w. isSpaceRune (rev w) \<Longrightarrow> set w \<subseteq> spaceBytes"
    using spaceRune_bytes by fastforce
  then obtain p where p: "rev s = p @ ?t" and bytes: "set p \<subseteq> spaceBytes"
    using stripRunes_decomp [of "\<lambda>w. isSpaceRune (rev w)" spaceBytes "rev s"] by blast
  from assms have m: "rev m \<noteq> []" "hd (rev m) \<notin> spaceBytes"
    by (simp_all add: hd_rev)
  have "Contains (TrimRight s) m = Contains ?t (rev m)"
    using Contains_rev [of ?t "rev m"] by (simp add: TrimRight_def)
  also have "\<dots> = Contains (p @ ?t) (rev m)"
    using Contains_skip [OF bytes m, of ?t] by simp
  also have "\<dots> = Contains s m"
    using Contains_rev [of s m] by (simp add: p [symmetric])
  finally show ?thesis .
qed

lemma Contains_TrimSpace_marker: "Contains (TrimSpace s) ''Schemes:'' = Contains s ''Schemes:''"
proof -
  have "hd ''Schemes:'' \<notin> spaceBytes" and "last ''Schemes:'' \<notin> spaceBytes"
    by (simp_all add: spaceBytes_def spaceRunes_def)
  then show ?thesis
    by (simp add: TrimSpace_def Contains_TrimLeft Contains_TrimRight)
qed


subsection \<open>The loop\<close>

lemma GetSchemes_loop_collecting:
  "GetSchemes_loop True schemes ls = schemes @ filter (\<lambda>l. l \<noteq> []) (map TrimSpace ls)"
  by (induction ls arbitrary: schemes) (simp_all add: Let_def)

lemma GetSchemes_loop_searching:
  "GetSchemes_loop False schemes ls = schemes @ schemes_after_header ls"
proof (induction ls arbitrary: schemes)
  case Nil
  show ?case by (simp add: schemes_after_header_def)
next
  case (Cons l ls)
  show ?case
  proof (cases "Contains l ''Schemes:''")
    case True
    then show ?thesis
      by (simp add: Contains_TrimSpace_marker GetSchemes_loop_collecting
          schemes_after_header_def)
  next
    case False
    then have "schemes_after_header (l # ls) = schemes_after_header ls"
      by (simp add: schemes_after_header_def)
    with False Cons.IH show ?thesis
      by (simp add: Contains_TrimSpace_marker)
  qed
qed

lemma rawLines_from_run:
  "CHR 0x0A \<notin> set xs \<Longrightarrow> rawLines_from cur (xs @ ys) = rawLines_from (cur @ xs) ys"
  by (induction xs arbitrary: cur) auto

lemma scanLines_from_run:
  "CHR 0x0A \<notin> set xs \<Longrightarrow> scanLines_from cur (xs @ ys) = scanLines_from (cur @ xs) ys"
  by (induction xs arbitrary: cur) auto

lemma Contains_set: "Contains s m \<Longrightarrow> set m \<subseteq> set s"
  by (simp add: Contains_sublist set_mono_sublist)

text \<open>
  The scanner yields the lines of the text up to the first line that does not fit its
  buffer, and the schemes declared by a part of the lines are among those declared by
  all of them.
\<close>

lemma scanLines_from_prefix:
  "prefix (scanLines_from cur rest) (map dropCR (rawLines_from cur rest))"
  by (induction rest arbitrary: cur) auto

lemma scanLines_prefix: "\<exists>unseen. textLines output = scanLines output @ unseen"
  using scanLines_from_prefix [of "[]" "output"]
  by (auto simp: scanLines_def textLines_def rawLines_def prefix_def)

lemma schemes_after_header_none:
  "schemes_after_header (seen @ unseen) = [] \<Longrightarrow> schemes_after_header seen = []"
proof (induction seen)
  case Nil
  show ?case by (simp add: schemes_after_header_def)
next
  case (Cons l seen)
  show ?case
  proof (cases "Contains l ''Schemes:''")
    case True
    with Cons.prems show ?thesis
      by (simp add: schemes_after_header_def)
  next
    case False
    then have "schemes_after_header ((l # seen) @ unseen) = schemes_after_header (seen @ unseen)"
      and "schemes_after_header (l # seen) = schemes_after_header seen"
      by (simp_all add: schemes_after_header_def)
    with Cons show ?thesis
      by simp
  qed
qed

text \<open>
  Claim C1, as amended. Let the command succeed. For every output, \<open>GetSchemes\<close> returns
  the error \<open>no schemes found\<close> when no line contains \<open>Schemes:\<close> or no line that is not
  blank comes after the first line that contains it. When there is such a line, and
  every line of the output, up to its newline, is shorter than the buffer of the
  scanner, \<open>GetSchemes\<close> returns exactly the lines that are not blank after the first
  line that contains \<open>Schemes:\<close>, trimmed and in their order.
\<close>

theorem GetSchemes_lines_after_header:
  assumes "RunShellCommand w ''xcodebuild'' [''-list''] = Ok output"
  shows "(schemes_after_header (textLines output) = [] \<longrightarrow>
            GetSchemes w = Err (GoError ''no schemes found'')) \<and>
         ((\<forall>l \<in> set (rawLines output). length l < MaxScanTokenSize) \<and>
          schemes_after_header (textLines output) \<noteq> [] \<longrightarrow>
            GetSchemes w = Ok (schemes_after_header (textLines output)))"
proof (intro conjI impI)
  have result: "GetSchemes w =
      (if schemes_after_header (scanLines output) = []
       then Err (GoError ''no schemes found'')
       else Ok (schemes_after_header (scanLines output)))"
    using assms
    by (simp add: GetSchemes_def and_then_def schemes_of_output_def
        GetSchemes_loop_searching)
  {
    assume none: "schemes_after_header (textLines output) = []"
    obtain unseen where "textLines output = scanLines output @ unseen"
      using scanLines_prefix [of "output"] by blast
    with none have "schemes_after_header (scanLines output) = []"
      using schemes_after_header_none [of "scanLines output" unseen] by simp
    with result show "GetSchemes w = Err (GoError ''no schemes found'')"
      by simp
  }
  {
    assume some: "(\<forall>l \<in> set (rawLines output). length l < MaxScanTokenSize) \<and>
      schemes_after_header (textLines output) \<noteq> []"
    then have "scanLines output = textLines output"
      by (simp add: scanLines_def textLines_def rawLines_def scanLines_from_short)
    with some result show "GetSchemes w = Ok (schemes_after_header (textLines output))"
      by simp
  }
qed

text \<open>
  The scenario of the specification, a listing without the header, and a listing with a
  line of 65536 bytes and no header.
\<close>

theorem GetSchemes_lines_after_header_witness:
  "GetSchemes (silent_world\<lparr>Run := printing ''Schemes:\<newline>  Debug\<newline>  Release\<newline>''\<rparr>) =
     Ok [''Debug'', ''Release''] \<and>
   GetSchemes (silent_world\<lparr>Run := printing ''Targets:\<newline>  App\<newline>''\<rparr>) =
     Err (GoError ''no schemes found'') \<and>
   GetSchemes
     (silent_world\<lparr>Run := printing (replicate 65536 CHR ''a'' @ ''\<newline>Targets:\<newline>'')\<rparr>) =
     Err (GoError ''no schemes found'')"
proof -
  let ?long = "replicate 65536 CHR ''a''"
  have trims: "TrimSpace ''  Debug'' = ''Debug''" "TrimSpace ''  Release'' = ''Release''"
    by (simp_all add: TrimSpace_def TrimLeft_def TrimRight_def isSpaceRune_def
        spaceRunes_def)
  have "CHR 0x0A \<notin> set ?long"
    by simp
  then have "rawLines (?long @ ''\<newline>Targets:\<newline>'') =
      rawLines_from ?long ''\<newline>Targets:\<newline>''"
    using rawLines_from_run [of ?long "[]" "''\<newline>Targets:\<newline>''"]
    by (simp add: rawLines_def)
  then have lines: "textLines (?long @ ''\<newline>Targets:\<newline>'') = [?long, ''Targets:'']"
    by (simp add: textLines_def dropCR_def)
  have "\<not> Contains ?long ''Schemes:''"
    using Contains_set [of ?long "''Schemes:''"] by auto
  with lines
  have none: "schemes_after_header (textLines (?long @ ''\<newline>Targets:\<newline>'')) = []"
    by (simp add: schemes_after_header_def)
  show ?thesis
    using
      GetSchemes_lines_after_header
        [of "silent_world\<lparr>Run := printing ''Schemes:\<newline>  Debug\<newline>  Release\<newline>''\<rparr>"
            "''Schemes:\<newline>  Debug\<newline>  Release\<newline>''"]
      GetSchemes_lines_after_header
        [of "silent_world\<lparr>Run := printing ''Targets:\<newline>  App\<newline>''\<rparr>"
            "''Targets:\<newline>  App\<newline>''"]
      GetSchemes_lines_after_header
        [of "silent_world\<lparr>Run := printing (?long @ ''\<newline>Targets:\<newline>'')\<rparr>"
            "?long @ ''\<newline>Targets:\<newline>''"]
    by (simp add: none)
      (simp add: RunShellCommand_def silent_world_def printing_def rawLines_def
        textLines_def MaxScanTokenSize_def dropCR_def schemes_after_header_def trims)
qed

text \<open>
  Claim C1 as stated fails on a listing with a line of 65536 bytes or more: the scanner
  stops at that line and the loop never sees the header after it. The listing declares
  the scheme \<open>Debug\<close>, and \<open>GetSchemes\<close> finds none.
\<close>

theorem GetSchemes_long_line_counterexample:
  "schemes_after_header (textLines long_line_output) = [''Debug''] \<and>
   GetSchemes (silent_world\<lparr>Run := printing long_line_output\<rparr>) =
     Err (GoError ''no schemes found'')"
proof
  let ?long = "replicate 65536 CHR ''a''"
  have no_newline: "CHR 0x0A \<notin> set ?long"
    by simp
  have "rawLines long_line_output =
      rawLines_from ?long ''\<newline>Schemes:\<newline>Debug\<newline>''"
    using rawLines_from_run [OF no_newline, of "[]"]
    by (simp add: rawLines_def long_line_output_def)
  then have "textLines long_line_output = [?long, ''Schemes:'', ''Debug'']"
    by (simp add: textLines_def dropCR_def)
  moreover have "\<not> Contains ?long ''Schemes:''"
    using Contains_set [of ?long "''Schemes:''"] by auto
  moreover have "TrimSpace ''Debug'' = ''Debug''"
    by (simp add: TrimSpace_def TrimLeft_def TrimRight_def isSpaceRune_def spaceRunes_def)
  ultimately show "schemes_after_header (textLines long_line_output) = [''Debug'']"
    by (simp add: schemes_after_header_def)
  have "scanLines long_line_output =
      scanLines_from ?long ''\<newline>Schemes:\<newline>Debug\<newline>''"
    using scanLines_from_run [OF no_newline, of "[]"]
    by (simp add: scanLines_def long_line_output_def)
  then have "scanLines long_line_output = []"
    by (simp add: MaxScanTokenSize_def)
  then show "GetSchemes (silent_world\<lparr>Run := printing long_line_output\<rparr>) =
      Err (GoError ''no schemes found'')"
    by (simp add: GetSchemes_def RunShellCommand_def silent_world_def printing_def
        and_then_def schemes_of_output_def)
qed

section \<open>The project locator\<close>

lemma detect_loop_step:
  "detect_loop project workspace (f # files) =
     (if is_workspace f then detect_loop project (Name_of f) files
      else if is_project f then detect_loop (Name_of f) workspace files
      else detect_loop project workspace files)"
  by (simp add: is_workspace_def is_project_def)

lemma workspace_not_project: "is_workspace f \<Longrightarrow> \<not> is_project f"
  by (simp add: is_workspace_def is_project_def)

text \<open>The loop keeps the last project and the last workspace of the listing.\<close>

lemma detect_loop_last:
  "detect_loop project workspace files =
     ((if filter is_project files = [] then project
       else Name_of (last (filter is_project files))),
      (if filter is_workspace files = [] then workspace
       else Name_of (last (filter is_workspace files))))"
proof (induction files arbitrary: project workspace)
  case Nil
  show ?case by simp
next
  case (Cons f files)
  show ?case
    by (simp add: detect_loop_step Cons.IH workspace_not_project del: detect_loop.simps)
qed

lemma Ext_nonempty_name: "Ext name \<noteq> [] \<Longrightarrow> name \<noteq> []"
  by (cases name) simp_all

lemma last_filter_in:
  "filter P xs \<noteq> [] \<Longrightarrow> last (filter P xs) \<in> set xs \<and> P (last (filter P xs))"
  using last_in_set [of "filter P xs"] by auto

lemma project_among_workspace:
  assumes "\<exists>f \<in> set files. is_workspace f"
  shows "\<exists>f \<in> set files. is_workspace f \<and> project_among files = Ok (Name_of f)"
proof -
  let ?f = "last (filter is_workspace files)"
  from assms have ne: "filter is_workspace files \<noteq> []"
    by (simp add: filter_empty_conv)
  then have in_set: "?f \<in> set files" and ws: "is_workspace ?f"
    using last_filter_in [of is_workspace files] by simp_all
  from ws have "Name_of ?f \<noteq> []"
    by (auto simp: is_workspace_def dest: Ext_nonempty_name [of "Name_of ?f"])
  with ne have "project_among files = Ok (Name_of ?f)"
    by (simp add: project_among_def detect_loop_last)
  with in_set ws show ?thesis by blast
qed

lemma project_among_project:
  assumes "\<forall>f \<in> set files. \<not> is_workspace f" and "\<exists>f \<in> set files. is_project f"
  shows "\<exists>f \<in> set files. is_project f \<and> project_among files = Ok (Name_of f)"
proof -
  let ?f = "last (filter is_project files)"
  from assms have no_ws: "filter is_workspace files = []"
    and ne: "filter is_project files \<noteq> []"
    by (simp_all add: filter_empty_conv)
  from ne have in_set: "?f \<in> set files" and pr: "is_project ?f"
    using last_filter_in [of is_project files] by simp_all
  from pr have "Name_of ?f \<noteq> []"
    by (auto simp: is_project_def dest: Ext_nonempty_name [of "Name_of ?f"])
  with ne no_ws have "project_among files = Ok (Name_of ?f)"
    by (simp add: project_among_def detect_loop_last)
  with in_set pr show ?thesis by blast
qed

lemma project_among_neither:
  assumes "\<forall>f \<in> set files. \<not> is_workspace f" and "\<forall>f \<in> set files. \<not> is_project f"
  shows "project_among files =
    Err (GoError ''no .xcodeproj or .xcworkspace found in the current directory'')"
proof -
  from assms have "filter is_workspace files = []" and "filter is_project files = []"
    by (simp_all add: filter_empty_conv)
  then show ?thesis
    by (simp add: project_among_def detect_loop_last)
qed

text \<open>
  Claim C2. When the directory can be listed, \<open>detectXcodeProject\<close> returns the name of
  a workspace entry whenever the listing has one, also when it has a project entry; it
  returns the name of a project entry when the listing has a project entry and no
  workspace entry; and it returns the error that nothing was found when the listing has
  neither.
\<close>

theorem detectXcodeProject_prefers_workspace:
  assumes "ReadDir w = (files, None)"
  shows "((\<exists>f \<in> set files. is_workspace f) \<longrightarrow>
            (\<exists>f \<in> set files. is_workspace f \<and> detectXcodeProject w = Ok (Name_of f))) \<and>
         ((\<forall>f \<in> set files. \<not> is_workspace f) \<and> (\<exists>f \<in> set files. is_project f) \<longrightarrow>
            (\<exists>f \<in> set files. is_project f \<and> detectXcodeProject w = Ok (Name_of f))) \<and>
         ((\<forall>f \<in> set files. \<not> is_workspace f) \<and> (\<forall>f \<in> set files. \<not> is_project f) \<longrightarrow>
            detectXcodeProject w =
              Err (GoError ''no .xcodeproj or .xcworkspace found in the current directory''))"
proof -
  from assms have "detectXcodeProject w = project_among files"
    by (simp add: detectXcodeProject_def)
  then show ?thesis
    using project_among_workspace [of files] project_among_project [of files]
      project_among_neither [of files]
    by simp
qed

text \<open>
  The two scenarios of the specification, and an empty directory: a directory with only
  \<open>App.xcodeproj\<close>, and one with \<open>App.xcodeproj\<close> and \<open>App.xcworkspace\<close>.
\<close>

theorem detectXcodeProject_prefers_workspace_witness:
  "detectXcodeProject
     (silent_world\<lparr>ReadDir := ([\<lparr>Name_of = ''App.xcodeproj'', IsDir = True\<rparr>], None)\<rparr>) =
     Ok ''App.xcodeproj'' \<and>
   detectXcodeProject
     (silent_world\<lparr>ReadDir := ([\<lparr>Name_of = ''App.xcodeproj'', IsDir = True\<rparr>,
                                 \<lparr>Name_of = ''App.xcworkspace'', IsDir = True\<rparr>], None)\<rparr>) =
     Ok ''App.xcworkspace'' \<and>
   detectXcodeProject (silent_world\<lparr>ReadDir := ([], None)\<rparr>) =
     Err (GoError ''no .xcodeproj or .xcworkspace found in the current directory'')"
  using
    detectXcodeProject_prefers_workspace
      [of "silent_world\<lparr>ReadDir := ([\<lparr>Name_of = ''App.xcodeproj'', IsDir = True\<rparr>], None)\<rparr>"
          "[\<lparr>Name_of = ''App.xcodeproj'', IsDir = True\<rparr>]"]
    detectXcodeProject_prefers_workspace
      [of "silent_world\<lparr>ReadDir := ([\<lparr>Name_of = ''App.xcodeproj'', IsDir = True\<rparr>,
                                      \<lparr>Name_of = ''App.xcworkspace'', IsDir = True\<rparr>], None)\<rparr>"
          "[\<lparr>Name_of = ''App.xcodeproj'', IsDir = True\<rparr>,
            \<lparr>Name_of = ''App.xcworkspace'', IsDir = True\<rparr>]"]
    detectXcodeProject_prefers_workspace [of "silent_world\<lparr>ReadDir := ([], None)\<rparr>" "[]"]
  by (simp add: is_workspace_def is_project_def)

section \<open>The JSON listing of devices\<close>

lemma group_loop_last:
  "group_loop devices ds n =
     (if filter (named_available n) ds = [] then devices n
      else Some (UDID (last (filter (named_available n) ds))))"
  by (induction ds arbitrary: devices) (auto simp: named_available_def)

lemma groups_loop_last:
  "groups_loop devices deviceList n =
     (if filter (named_available n) (records_seen deviceList) = [] then devices n
      else Some (UDID (last (filter (named_available n) (records_seen deviceList)))))"
proof (induction deviceList arbitrary: devices)
  case Nil
  show ?case by (simp add: records_seen_def)
next
  case (Cons g deviceList)
  obtain groupName deviceGroup where g: "g = (groupName, deviceGroup)"
    by (cases g)
  have seen: "records_seen (g # deviceList) = deviceGroup @ records_seen deviceList"
    by (simp add: g records_seen_def)
  have "groups_loop devices (g # deviceList) n =
      groups_loop (group_loop devices deviceGroup) deviceList n"
    by (simp add: g)
  also have "\<dots> =
      (if filter (named_available n) (records_seen deviceList) = []
       then group_loop devices deviceGroup n
       else Some (UDID (last (filter (named_available n) (records_seen deviceList)))))"
    by (rule Cons.IH)
  also have "\<dots> =
      (if filter (named_available n) (records_seen (g # deviceList)) = [] then devices n
       else Some (UDID (last (filter (named_available n) (records_seen (g # deviceList))))))"
    by (simp add: seen group_loop_last)
  finally show ?case .
qed

lemma group_loop_available: "group_loop devices (filter Avail ds) = group_loop devices ds"
  by (induction ds arbitrary: devices) simp_all

lemma groups_loop_available:
  "groups_loop devices (available_only deviceList) = groups_loop devices deviceList"
  by (induction deviceList arbitrary: devices)
    (auto simp: group_loop_available available_only_def)

lemma groups_loop_source:
  assumes "groups_loop Map.empty deviceList n = Some u"
  shows "\<exists>d \<in> set (records_seen deviceList). Avail d \<and> Name d = n \<and> UDID d = u"
proof -
  let ?found = "filter (named_available n) (records_seen deviceList)"
  from assms have ne: "?found \<noteq> []" and u: "u = UDID (last ?found)"
    by (simp_all add: groups_loop_last split: if_splits)
  from ne have "last ?found \<in> set (records_seen deviceList)"
    and "named_available n (last ?found)"
    using last_filter_in [of "named_available n" "records_seen deviceList"] by simp_all
  with u show ?thesis
    by (auto simp: named_available_def)
qed

lemma GetDevices_simctl_decoded:
  assumes "failure (Run w ''xcrun'' [''simctl'', ''list'', ''devices'', ''--json'']) = None"
    and "Unmarshal_DeviceList w
           (stdout (Run w ''xcrun'' [''simctl'', ''list'', ''devices'', ''--json''])) =
         Inr deviceList"
  shows "GetDevices_simctl w = devices_of_list deviceList"
  using assms by (simp add: GetDevices_simctl_def)

text \<open>
  Claim C6. For a listing that the command prints and that decodes, an entry of the
  registry comes from an available record: when the registry maps a name to an
  identifier, some record of the listing with the availability flag set has that name
  and that identifier. The unavailable records have no part in the result: it is the
  result for the listing without them.
\<close>

theorem GetDevices_simctl_only_available:
  assumes "failure (Run w ''xcrun'' [''simctl'', ''list'', ''devices'', ''--json'']) = None"
    and "Unmarshal_DeviceList w
           (stdout (Run w ''xcrun'' [''simctl'', ''list'', ''devices'', ''--json''])) =
         Inr deviceList"
  shows "(GetDevices_simctl w = Ok devices \<and> devices n = Some u \<longrightarrow>
            (\<exists>d \<in> set (records_seen deviceList). Avail d \<and> Name d = n \<and> UDID d = u)) \<and>
         GetDevices_simctl w = devices_of_list (available_only deviceList)"
proof
  have result: "GetDevices_simctl w = devices_of_list deviceList"
    using assms by (rule GetDevices_simctl_decoded)
  show "GetDevices_simctl w = Ok devices \<and> devices n = Some u \<longrightarrow>
      (\<exists>d \<in> set (records_seen deviceList). Avail d \<and> Name d = n \<and> UDID d = u)"
  proof
    assume a: "GetDevices_simctl w = Ok devices \<and> devices n = Some u"
    with result have "devices = groups_loop Map.empty deviceList"
      by (simp add: devices_of_list_def Let_def split: if_splits)
    with a show "\<exists>d \<in> set (records_seen deviceList). Avail d \<and> Name d = n \<and> UDID d = u"
      using groups_loop_source [of deviceList n u] by simp
  qed
  show "GetDevices_simctl w = devices_of_list (available_only deviceList)"
    by (simp add: result devices_of_list_def groups_loop_available)
qed

text \<open>
  The scenario of the specification, with an unavailable record added: one available
  simulator \<open>iPhone 15\<close> with the identifier \<open>ABCD-1234\<close>.
\<close>

theorem GetDevices_simctl_only_available_witness:
  "identifier_of
     (GetDevices_simctl
        (silent_world\<lparr>Unmarshal_DeviceList := decoding
           [(''iOS 17.0'',
             [\<lparr>Name = ''iPhone 15'', UDID = ''ABCD-1234'', Avail = True\<rparr>,
              \<lparr>Name = ''iPhone 14'', UDID = ''EF01-5678'', Avail = False\<rparr>])]\<rparr>))
     ''iPhone 14'' = None \<and>
   GetDevices_simctl
     (silent_world\<lparr>Unmarshal_DeviceList := decoding
        [(''iOS 17.0'',
          [\<lparr>Name = ''iPhone 15'', UDID = ''ABCD-1234'', Avail = True\<rparr>,
           \<lparr>Name = ''iPhone 14'', UDID = ''EF01-5678'', Avail = False\<rparr>])]\<rparr>) =
     Ok [''iPhone 15'' \<mapsto> ''ABCD-1234'']"
  using GetDevices_simctl_only_available
    [of "silent_world\<lparr>Unmarshal_DeviceList := decoding
           [(''iOS 17.0'',
             [\<lparr>Name = ''iPhone 15'', UDID = ''ABCD-1234'', Avail = True\<rparr>,
              \<lparr>Name = ''iPhone 14'', UDID = ''EF01-5678'', Avail = False\<rparr>])]\<rparr>"
        "[(''iOS 17.0'',
             [\<lparr>Name = ''iPhone 15'', UDID = ''ABCD-1234'', Avail = True\<rparr>,
              \<lparr>Name = ''iPhone 14'', UDID = ''EF01-5678'', Avail = False\<rparr>])]"
        "[''iPhone 15'' \<mapsto> ''ABCD-1234'']" "''iPhone 15''" "''ABCD-1234''"]
  by (simp add: silent_world_def printing_def decoding_def available_only_def
      devices_of_list_def identifier_of_def)

text \<open>
  Claim C9, as amended. When some available record of the listing has the name \<open>n\<close>,
  \<open>GetDevices\<close> returns a registry, and the registry maps \<open>n\<close> to the identifier of the
  last available record of that name in the order in which the loops see the records.
  That order follows the visit of the groups by \<open>range\<close>, which the listing does not
  fix.
\<close>

theorem GetDevices_simctl_last_seen:
  assumes "failure (Run w ''xcrun'' [''simctl'', ''list'', ''devices'', ''--json'']) = None"
    and "Unmarshal_DeviceList w
           (stdout (Run w ''xcrun'' [''simctl'', ''list'', ''devices'', ''--json''])) =
         Inr deviceList"
    and "\<exists>d \<in> set (records_seen deviceList). named_available n d"
  shows "\<exists>devices. GetDevices_simctl w = Ok devices \<and>
           devices n =
             Some (UDID (last (filter (named_available n) (records_seen deviceList))))"
proof -
  let ?devices = "groups_loop Map.empty deviceList"
  from assms(3) have "filter (named_available n) (records_seen deviceList) \<noteq> []"
    by (simp add: filter_empty_conv)
  then have n: "?devices n =
      Some (UDID (last (filter (named_available n) (records_seen deviceList))))"
    by (simp add: groups_loop_last)
  then have "?devices \<noteq> Map.empty"
    by auto
  then have "devices_of_list deviceList = Ok ?devices"
    by (simp add: devices_of_list_def)
  with n show ?thesis
    using GetDevices_simctl_decoded [OF assms(1,2)] by simp
qed

theorem GetDevices_simctl_last_seen_witness:
  "identifier_of
     (GetDevices_simctl (silent_world\<lparr>Unmarshal_DeviceList := decoding two_groups\<rparr>))
     ''iPhone 15'' = Some ''BBBB-2222''"
  using GetDevices_simctl_last_seen
    [of "silent_world\<lparr>Unmarshal_DeviceList := decoding two_groups\<rparr>" two_groups
        "''iPhone 15''"]
  by (auto simp: silent_world_def printing_def decoding_def two_groups_def
      records_seen_def named_available_def identifier_of_def)

text \<open>
  Claim C9 as stated fails in its last part: the two lists below are the same map, seen
  in the two possible orders, and the registry retains a different identifier for each.
\<close>

theorem GetDevices_simctl_order_counterexample:
  "map_of two_groups = map_of (rev two_groups) \<and>
   identifier_of
     (GetDevices_simctl (silent_world\<lparr>Unmarshal_DeviceList := decoding two_groups\<rparr>))
     ''iPhone 15'' = Some ''BBBB-2222'' \<and>
   identifier_of
     (GetDevices_simctl (silent_world\<lparr>Unmarshal_DeviceList := decoding (rev two_groups)\<rparr>))
     ''iPhone 15'' = Some ''AAAA-1111''"
proof (intro conjI)
  show "map_of two_groups = map_of (rev two_groups)"
    by (auto simp: two_groups_def fun_eq_iff)
  show "identifier_of
     (GetDevices_simctl (silent_world\<lparr>Unmarshal_DeviceList := decoding two_groups\<rparr>))
     ''iPhone 15'' = Some ''BBBB-2222''"
    by (simp add: GetDevices_simctl_def silent_world_def printing_def decoding_def
        two_groups_def devices_of_list_def identifier_of_def)
  show "identifier_of
     (GetDevices_simctl (silent_world\<lparr>Unmarshal_DeviceList := decoding (rev two_groups)\<rparr>))
     ''iPhone 15'' = Some ''AAAA-1111''"
    by (simp add: GetDevices_simctl_def silent_world_def printing_def decoding_def
        two_groups_def devices_of_list_def identifier_of_def)
qed

section \<open>The text listing of devices\<close>

subsection \<open>Lines under an Offline header\<close>

text \<open>
  The lines of a section that the loop passes over: while the current section is neither
  \<open>== Devices ==\<close> nor \<open>== Simulators ==\<close>, lines that are no headers change nothing.
\<close>

lemma GetDevices_loop_skips:
  assumes "current \<noteq> ''== Devices ==''" and "current \<noteq> ''== Simulators ==''"
    and "\<forall>l \<in> set body. \<not> HasPrefix l ''== ''"
  shows "GetDevices_loop current devices (body @ rest) = GetDevices_loop current devices rest"
  using assms by (induction body) simp_all

text \<open>What the loop does with the lines read so far does not depend on those to come.\<close>

lemma GetDevices_loop_append:
  assumes "\<And>current devices. GetDevices_loop current devices xs = GetDevices_loop current devices ys"
  shows "GetDevices_loop current devices (before @ xs) =
         GetDevices_loop current devices (before @ ys)"
proof (induction before arbitrary: current devices)
  case Nil
  show ?case by (simp add: assms)
next
  case (Cons l before)
  show ?case
  proof (cases "device_of_line l")
    case (Ok entry)
    then show ?thesis
      by (cases entry) (auto simp add: Cons.IH and_then_def simp del: fun_upd_apply)
  next
    case (Err err)
    then show ?thesis
      by (simp add: Cons.IH and_then_def)
  next
    case (Panic p)
    then show ?thesis
      by (simp add: Cons.IH and_then_def)
  qed
qed

lemma offline_header:
  assumes "Contains header ''Offline''"
  shows "header \<noteq> ''== Devices =='' \<and> header \<noteq> ''== Simulators ==''"
  using assms by auto

lemma GetDevices_lines_offline:
  assumes "HasPrefix header ''== ''" and "Contains header ''Offline''"
    and "\<forall>l \<in> set body. \<not> HasPrefix l ''== ''"
  shows "GetDevices_lines (before @ header # body @ rest) =
         GetDevices_lines (before @ header # rest)"
proof -
  from assms(2) have other: "header \<noteq> ''== Devices ==''" "header \<noteq> ''== Simulators ==''"
    using offline_header [of header] by simp_all
  have "GetDevices_loop current devices (header # body @ rest) =
        GetDevices_loop current devices (header # rest)" for current devices
    using assms(1) GetDevices_loop_skips [OF other assms(3)] by simp
  then have "GetDevices_loop [] Map.empty (before @ header # body @ rest) =
             GetDevices_loop [] Map.empty (before @ header # rest)"
    by (rule GetDevices_loop_append)
  then show ?thesis
    by (simp add: GetDevices_lines_def)
qed

text \<open>
  Claim C7. Take a listing in which a header line that contains \<open>Offline\<close> is followed
  by lines that are no headers, whatever else they are. \<open>GetDevices\<close> returns for it
  what it returns for the listing without those lines: they contribute no entry, and
  nothing else either.
\<close>

theorem GetDevices_xctrace_skips_offline:
  assumes "failure (Run w ''xcrun'' [''xctrace'', ''list'', ''devices'']) = None"
    and "failure (Run w' ''xcrun'' [''xctrace'', ''list'', ''devices'']) = None"
    and "scanLines (stdout (Run w ''xcrun'' [''xctrace'', ''list'', ''devices''])) =
           before @ header # body @ rest"
    and "scanLines (stdout (Run w' ''xcrun'' [''xctrace'', ''list'', ''devices''])) =
           before @ header # rest"
    and "HasPrefix header ''== ''" and "Contains header ''Offline''"
    and "\<forall>l \<in> set body. \<not> HasPrefix l ''== ''"
  shows "GetDevices_xctrace w = GetDevices_xctrace w'"
  using assms(1-4) GetDevices_lines_offline [OF assms(5-7), of before rest]
  by (simp add: GetDevices_xctrace_def)

text \<open>
  A listing with a connected phone, and an offline tablet whose identifier has the shape
  of a UUID: the tablet is not in the registry.
\<close>

theorem GetDevices_xctrace_skips_offline_witness:
  "GetDevices_xctrace
     (silent_world\<lparr>Run := printing
        ''== Devices ==\<newline>iPhone (17.0) (00008030-001C)\<newline>== Devices Offline ==\<newline>iPad (16.1) (ABCD1234-ABCD-1234-ABCD-1234567890AB)\<newline>''\<rparr>) =
   Ok [''iPhone'' \<mapsto> ''00008030-001C'']"
proof -
  have scans:
    "scanLines ''== Devices ==\<newline>iPhone (17.0) (00008030-001C)\<newline>== Devices Offline ==\<newline>iPad (16.1) (ABCD1234-ABCD-1234-ABCD-1234567890AB)\<newline>'' =
       [''== Devices =='', ''iPhone (17.0) (00008030-001C)''] @
       ''== Devices Offline =='' #
       [''iPad (16.1) (ABCD1234-ABCD-1234-ABCD-1234567890AB)''] @ []"
    "scanLines ''== Devices ==\<newline>iPhone (17.0) (00008030-001C)\<newline>== Devices Offline ==\<newline>'' =
       [''== Devices =='', ''iPhone (17.0) (00008030-001C)''] @
       ''== Devices Offline =='' # []"
    by (simp_all add: scanLines_def MaxScanTokenSize_def dropCR_def)
  have entry: "device_of_line ''iPhone (17.0) (00008030-001C)'' =
      Ok (Some (''iPhone'', ''00008030-001C''))"
    by (simp add: device_of_line_def slice_from_def slice_to_def and_then_def
        TrimSuffix_def HasSuffix_def suffix_to_prefix TrimSpace_def TrimLeft_def
        TrimRight_def isSpaceRune_def spaceRunes_def)
  have "GetDevices_xctrace
     (silent_world\<lparr>Run := printing
        ''== Devices ==\<newline>iPhone (17.0) (00008030-001C)\<newline>== Devices Offline ==\<newline>''\<rparr>) =
     Ok [''iPhone'' \<mapsto> ''00008030-001C'']"
    by (simp add: GetDevices_xctrace_def silent_world_def printing_def scans
        GetDevices_lines_def HasPrefix_def entry and_then_def)
  then show ?thesis
    using GetDevices_xctrace_skips_offline
      [of "silent_world\<lparr>Run := printing
        ''== Devices ==\<newline>iPhone (17.0) (00008030-001C)\<newline>== Devices Offline ==\<newline>iPad (16.1) (ABCD1234-ABCD-1234-ABCD-1234567890AB)\<newline>''\<rparr>"
          "silent_world\<lparr>Run := printing
        ''== Devices ==\<newline>iPhone (17.0) (00008030-001C)\<newline>== Devices Offline ==\<newline>''\<rparr>"
          "[''== Devices =='', ''iPhone (17.0) (00008030-001C)'']"
          "''== Devices Offline ==''"
          "[''iPad (16.1) (ABCD1234-ABCD-1234-ABCD-1234567890AB)'']" "[]"]
    by (simp add: silent_world_def printing_def scans HasPrefix_def)
qed

subsection \<open>The last parenthesis and the regular expression\<close>





















subsection \<open>A parenthesis at the start of a line\<close>

text \<open>
  Claim C10. The claim asks that the parser of the text listing ends with a map or an
  error on every input. On a line of a Devices section whose only opening parenthesis
  is its first character, \<open>lastParenIndex\<close> is \<open>0\<close> and the slice
  \<open>line[:lastParenIndex-1]\<close> has the bound \<open>-1\<close>: \<open>GetDevices\<close> panics.
\<close>

theorem GetDevices_xctrace_slice_panics:
  "GetDevices_xctrace
     (silent_world\<lparr>Run := printing ''== Devices ==\<newline>(ABC)\<newline>''\<rparr>) =
     Panic (SliceBoundsOutOfRange (- 1))"
  by (simp add: GetDevices_xctrace_def silent_world_def printing_def scanLines_def
      MaxScanTokenSize_def dropCR_def GetDevices_lines_def HasPrefix_def
      device_of_line_def slice_from_def slice_to_def and_then_def)

section \<open>The build settings\<close>

text \<open>
  Claim C4. When the command succeeds and its output decodes to a sequence whose first
  record binds \<open>buildSettings\<close> to a mapping that binds the three required keys to
  strings, \<open>GetBuildSettings\<close> returns as \<open>appPath\<close> the output directory, the separator
  \<open>/\<close> and the contents-folder path, concatenated, and as \<open>bundleIdentifier\<close> the value
  bound to the bundle-identifier key, for every scheme and device identifier.
\<close>

theorem GetBuildSettings_appPath:
  assumes "failure (Run w ''xcodebuild''
             [''-scheme'', selectedScheme, ''-destination'', ''id='' @ deviceID,
              ''-showBuildSettings'', ''-json'']) = None"
    and "Unmarshal_settings w (stdout (Run w ''xcodebuild''
             [''-scheme'', selectedScheme, ''-destination'', ''id='' @ deviceID,
              ''-showBuildSettings'', ''-json''])) = Inr (first # others)"
    and "first ''buildSettings'' = Some (AMap settings)"
    and "settings ''BUILT_PRODUCTS_DIR'' = Some (AString outputDir)"
    and "settings ''CONTENTS_FOLDER_PATH'' = Some (AString contentsFolderPath)"
    and "settings ''PRODUCT_BUNDLE_IDENTIFIER'' = Some (AString bundleIdentifier)"
  shows "GetBuildSettings w selectedScheme deviceID =
           Ok (outputDir @ ''/'' @ contentsFolderPath, bundleIdentifier)"
  using assms
  by (simp add: GetBuildSettings_def settings_of_def and_then_def assert_map_def
      assert_string_def)

text \<open>A minimal valid record, for a scheme \<open>App\<close> and a device \<open>SIM01\<close>.\<close>

theorem GetBuildSettings_appPath_witness:
  "GetBuildSettings
     (silent_world\<lparr>Unmarshal_settings := decoding
        [[''buildSettings'' \<mapsto> AMap
            [''BUILT_PRODUCTS_DIR'' \<mapsto> AString ''/b/Debug-iphonesimulator'',
             ''CONTENTS_FOLDER_PATH'' \<mapsto> AString ''App.app'',
             ''PRODUCT_BUNDLE_IDENTIFIER'' \<mapsto> AString ''com.example.App'']]]\<rparr>)
     ''App'' ''SIM01'' =
   Ok (''/b/Debug-iphonesimulator/App.app'', ''com.example.App'')"
  using GetBuildSettings_appPath
    [of "silent_world\<lparr>Unmarshal_settings := decoding
        [[''buildSettings'' \<mapsto> AMap
            [''BUILT_PRODUCTS_DIR'' \<mapsto> AString ''/b/Debug-iphonesimulator'',
             ''CONTENTS_FOLDER_PATH'' \<mapsto> AString ''App.app'',
             ''PRODUCT_BUNDLE_IDENTIFIER'' \<mapsto> AString ''com.example.App'']]]\<rparr>"
        "''App''" "''SIM01''"
        "[''buildSettings'' \<mapsto> AMap
            [''BUILT_PRODUCTS_DIR'' \<mapsto> AString ''/b/Debug-iphonesimulator'',
             ''CONTENTS_FOLDER_PATH'' \<mapsto> AString ''App.app'',
             ''PRODUCT_BUNDLE_IDENTIFIER'' \<mapsto> AString ''com.example.App'']]"
        "[]"
        "[''BUILT_PRODUCTS_DIR'' \<mapsto> AString ''/b/Debug-iphonesimulator'',
          ''CONTENTS_FOLDER_PATH'' \<mapsto> AString ''App.app'',
          ''PRODUCT_BUNDLE_IDENTIFIER'' \<mapsto> AString ''com.example.App'']"
        "''/b/Debug-iphonesimulator''" "''App.app''" "''com.example.App''"]
  by (simp add: silent_world_def printing_def decoding_def)

text \<open>
  Claim C5. The claim asks for an error result in three cases. The code returns one when
  the sequence of records is empty. When the first record has no \<open>buildSettings\<close>
  mapping, when a required key is absent, and when one is bound to a value that is not
  a string, the type assertion panics instead: \<open>GetBuildSettings\<close> does not return.
  The payloads are \<open>[]\<close>, \<open>[{}]\<close>, \<open>[{"buildSettings": {}}]\<close> and a record whose
  \<open>BUILT_PRODUCTS_DIR\<close> is \<open>true\<close>.
\<close>

theorem GetBuildSettings_missing_field_panics:
  "GetBuildSettings (silent_world\<lparr>Unmarshal_settings := decoding []\<rparr>) ''App'' ''SIM01'' =
     Err (GoError ''Unable to find the required build settings'') \<and>
   GetBuildSettings (silent_world\<lparr>Unmarshal_settings := decoding [Map.empty]\<rparr>)
     ''App'' ''SIM01'' =
     Panic (InterfaceConversion ''map[string]interface {}'') \<and>
   GetBuildSettings
     (silent_world\<lparr>Unmarshal_settings := decoding
        [[''buildSettings'' \<mapsto> AMap Map.empty]]\<rparr>) ''App'' ''SIM01'' =
     Panic (InterfaceConversion ''string'') \<and>
   GetBuildSettings
     (silent_world\<lparr>Unmarshal_settings := decoding
        [[''buildSettings'' \<mapsto> AMap
            [''BUILT_PRODUCTS_DIR'' \<mapsto> ABool True,
             ''CONTENTS_FOLDER_PATH'' \<mapsto> AString ''App.app'',
             ''PRODUCT_BUNDLE_IDENTIFIER'' \<mapsto> AString ''com.example.App'']]]\<rparr>)
     ''App'' ''SIM01'' =
     Panic (InterfaceConversion ''string'')"
  by (simp add: GetBuildSettings_def settings_of_def and_then_def assert_map_def
      assert_string_def silent_world_def printing_def decoding_def)

section \<open>The deploy stage\<close>

lemma target_of_simulator_branch:
  "target_of_run (pre # simulator_branch u a b @ post) = Some Simulator"
  by (simp add: target_of_run_def simulator_branch_def)

lemma build_and_deploy_xctrace_target:
  assumes "failure (Run w ''xcodebuild''
       [''-scheme'', scheme, ''-destination'', ''id='' @ deviceUDID,
        ''-configuration'', ''Debug'', ''build'']) = None"
  shows "target_of_run
      (build_and_deploy_xctrace w scheme deviceUDID appPath bundleIdentifier) =
      Some (if Contains appPath ''simulator'' then Simulator else PhysicalDevice)"
  using assms
  by (simp add: build_and_deploy_xctrace_def target_of_simulator_branch)
    (simp add: target_of_run_def simulator_notice_def device_notice_def phone_def
      link_def check_def)

lemma build_and_deploy_simctl_target:
  assumes "failure (Run w ''xcodebuild''
       [''-scheme'', scheme, ''-destination'', ''id='' @ deviceUDID,
        ''clean'', ''build'']) = None"
  shows "target_of_run
      (build_and_deploy_simctl w scheme deviceUDID appPath bundleIdentifier) =
      Some (if Contains deviceUDID ''-'' then Simulator else PhysicalDevice)"
  using assms
  by (simp add: build_and_deploy_simctl_def target_of_simulator_branch)
    (simp add: target_of_run_def simulator_notice_def device_notice_def phone_def
      link_def check_def)

text \<open>What \<open>main\<close> has printed when it reaches the build.\<close>

lemma main_xctrace_build:
  assumes "detectXcodeProject w = Ok projectPath"
    and "GetSchemes w = Ok (selectedScheme # otherSchemes)"
    and "GetDevices_xctrace w = Ok devices"
    and "PromptUser w ''Select a Device'' (rangeKeys w devices) = Ok selectedDevice"
    and "devices selectedDevice = Some deviceUDID"
    and "GetBuildSettings w selectedScheme deviceUDID = Ok (appPath, bundleIdentifier)"
    and "appPath \<noteq> []" and "bundleIdentifier \<noteq> []"
  shows "main_xctrace w =
    [Println (rocket @ '' Xcode Runner CLI''),
     Println (folder @ '' Detected Xcode project: '' @ projectPath),
     Printf ([CHR 0x0A] @ hammer @ '' Building '' @ selectedScheme @ '' for '' @
             selectedDevice @ '' ('' @ deviceUDID @ '')...'' @ [CHR 0x0A])] @
    build_and_deploy_xctrace w selectedScheme deviceUDID appPath bundleIdentifier"
  using assms
  by (simp add: main_xctrace_def or_report_def select_device_and_build_def)

lemma main_simctl_build:
  assumes "detectXcodeProject w = Ok projectPath"
    and "GetSchemes w = Ok schemes"
    and "PromptUser w ''Select a Scheme'' schemes = Ok selectedScheme"
    and "GetDevices_simctl w = Ok devices"
    and "PromptUser w ''Select a Device'' (rangeKeys w devices) = Ok selectedDevice"
    and "devices selectedDevice = Some deviceUDID"
    and "GetBuildSettings w selectedScheme deviceUDID = Ok (appPath, bundleIdentifier)"
    and "appPath \<noteq> []" and "bundleIdentifier \<noteq> []"
  shows "main_simctl w =
    [Println (rocket @ '' Xcode Runner CLI''),
     Println (folder @ '' Detected Xcode project: '' @ projectPath),
     Printf ([CHR 0x0A] @ hammer @ '' Building '' @ selectedScheme @ '' for '' @
             selectedDevice @ '' ('' @ deviceUDID @ '')...'' @ [CHR 0x0A])] @
    build_and_deploy_simctl w selectedScheme deviceUDID appPath bundleIdentifier"
  using assms
  by (simp add: main_simctl_def or_report_def select_device_and_build_def)

lemma target_of_run_after_opening:
  "target_of_run (Println (rocket @ title) # run) = target_of_run run"
  "target_of_run (Println (folder @ detected) # run) = target_of_run run"
  "target_of_run (Printf message # run) = target_of_run run"
  by (simp_all add: target_of_run_def simulator_notice_def device_notice_def rocket_def
      folder_def)

text \<open>
  Claim C3, as amended. Take a run in which the project, the scheme, the device and the
  build settings are resolved and the build succeeds. \<open>main\<close> of the xctrace program
  deploys to the simulator exactly when the artifact path contains \<open>simulator\<close>,
  whatever the device identifier is, and to the physical device otherwise. \<open>main\<close> of
  xcode-runner.go deploys to the simulator exactly when the device identifier contains a
  hyphen, whatever the artifact path is, and to the physical device otherwise.
\<close>

theorem target_by_path_or_by_identifier:
  "(detectXcodeProject w = Ok projectPath \<and>
    GetSchemes w = Ok (selectedScheme # otherSchemes) \<and>
    GetDevices_xctrace w = Ok devices \<and>
    PromptUser w ''Select a Device'' (rangeKeys w devices) = Ok selectedDevice \<and>
    devices selectedDevice = Some deviceUDID \<and>
    GetBuildSettings w selectedScheme deviceUDID = Ok (appPath, bundleIdentifier) \<and>
    appPath \<noteq> [] \<and> bundleIdentifier \<noteq> [] \<and>
    failure (Run w ''xcodebuild''
       [''-scheme'', selectedScheme, ''-destination'', ''id='' @ deviceUDID,
        ''-configuration'', ''Debug'', ''build'']) = None \<longrightarrow>
    target_of_run (main_xctrace w) =
      Some (if Contains appPath ''simulator'' then Simulator else PhysicalDevice)) \<and>
   (detectXcodeProject w = Ok projectPath \<and>
    GetSchemes w = Ok schemes \<and>
    PromptUser w ''Select a Scheme'' schemes = Ok selectedScheme \<and>
    GetDevices_simctl w = Ok devices \<and>
    PromptUser w ''Select a Device'' (rangeKeys w devices) = Ok selectedDevice \<and>
    devices selectedDevice = Some deviceUDID \<and>
    GetBuildSettings w selectedScheme deviceUDID = Ok (appPath, bundleIdentifier) \<and>
    appPath \<noteq> [] \<and> bundleIdentifier \<noteq> [] \<and>
    failure (Run w ''xcodebuild''
       [''-scheme'', selectedScheme, ''-destination'', ''id='' @ deviceUDID,
        ''clean'', ''build'']) = None \<longrightarrow>
    target_of_run (main_simctl w) =
      Some (if Contains deviceUDID ''-'' then Simulator else PhysicalDevice))"
proof (intro conjI impI)
  assume a: "detectXcodeProject w = Ok projectPath \<and>
    GetSchemes w = Ok (selectedScheme # otherSchemes) \<and>
    GetDevices_xctrace w = Ok devices \<and>
    PromptUser w ''Select a Device'' (rangeKeys w devices) = Ok selectedDevice \<and>
    devices selectedDevice = Some deviceUDID \<and>
    GetBuildSettings w selectedScheme deviceUDID = Ok (appPath, bundleIdentifier) \<and>
    appPath \<noteq> [] \<and> bundleIdentifier \<noteq> [] \<and>
    failure (Run w ''xcodebuild''
       [''-scheme'', selectedScheme, ''-destination'', ''id='' @ deviceUDID,
        ''-configuration'', ''Debug'', ''build'']) = None"
  then have "main_xctrace w =
    [Println (rocket @ '' Xcode Runner CLI''),
     Println (folder @ '' Detected Xcode project: '' @ projectPath),
     Printf ([CHR 0x0A] @ hammer @ '' Building '' @ selectedScheme @ '' for '' @
             selectedDevice @ '' ('' @ deviceUDID @ '')...'' @ [CHR 0x0A])] @
    build_and_deploy_xctrace w selectedScheme deviceUDID appPath bundleIdentifier"
    using main_xctrace_build
      [of w projectPath selectedScheme otherSchemes devices selectedDevice deviceUDID
          appPath bundleIdentifier]
    by blast
  with a show "target_of_run (main_xctrace w) =
      Some (if Contains appPath ''simulator'' then Simulator else PhysicalDevice)"
    by (simp add: target_of_run_after_opening build_and_deploy_xctrace_target)
next
  assume a: "detectXcodeProject w = Ok projectPath \<and>
    GetSchemes w = Ok schemes \<and>
    PromptUser w ''Select a Scheme'' schemes = Ok selectedScheme \<and>
    GetDevices_simctl w = Ok devices \<and>
    PromptUser w ''Select a Device'' (rangeKeys w devices) = Ok selectedDevice \<and>
    devices selectedDevice = Some deviceUDID \<and>
    GetBuildSettings w selectedScheme deviceUDID = Ok (appPath, bundleIdentifier) \<and>
    appPath \<noteq> [] \<and> bundleIdentifier \<noteq> [] \<and>
    failure (Run w ''xcodebuild''
       [''-scheme'', selectedScheme, ''-destination'', ''id='' @ deviceUDID,
        ''clean'', ''build'']) = None"
  then have "main_simctl w =
    [Println (rocket @ '' Xcode Runner CLI''),
     Println (folder @ '' Detected Xcode project: '' @ projectPath),
     Printf ([CHR 0x0A] @ hammer @ '' Building '' @ selectedScheme @ '' for '' @
             selectedDevice @ '' ('' @ deviceUDID @ '')...'' @ [CHR 0x0A])] @
    build_and_deploy_simctl w selectedScheme deviceUDID appPath bundleIdentifier"
    using main_simctl_build
      [of w projectPath schemes selectedScheme devices selectedDevice deviceUDID
          appPath bundleIdentifier]
    by blast
  with a show "target_of_run (main_simctl w) =
      Some (if Contains deviceUDID ''-'' then Simulator else PhysicalDevice)"
    by (simp add: target_of_run_after_opening build_and_deploy_simctl_target)
qed

subsection \<open>Two runs\<close>

lemma demo_project: "detectXcodeProject (demo_world u d) = Ok ''App.xcodeproj''"
  by (simp add: demo_world_def detectXcodeProject_def project_among_def)

lemma demo_schemes: "GetSchemes (demo_world u d) = Ok [''App'']"
  by (simp add: demo_world_def GetSchemes_def RunShellCommand_def demo_run_def
      printing_def and_then_def schemes_of_output_def scanLines_def MaxScanTokenSize_def
      dropCR_def TrimSpace_def TrimLeft_def TrimRight_def isSpaceRune_def spaceRunes_def)

lemma demo_select: "PromptUser (demo_world u d) label (item # items) = Ok item"
  by (simp add: demo_world_def PromptUser_def choosing_first_def)

lemma demo_keys: "rangeKeys (demo_world u d) [''iPhone'' \<mapsto> x] = [''iPhone'']"
  by (simp add: demo_world_def keys_iPhone_def)

lemma demo_simctl: "GetDevices_simctl (demo_world u d) = Ok [''iPhone'' \<mapsto> u]"
  by (simp add: demo_world_def GetDevices_simctl_def demo_run_def printing_def
      decoding_def devices_of_list_def)

lemma demo_settings:
  "GetBuildSettings (demo_world u d) scheme deviceID = Ok (d @ ''/App.app'', ''com.example.App'')"
  by (simp add: demo_world_def GetBuildSettings_def demo_run_def printing_def
      decoding_def settings_of_def and_then_def assert_map_def assert_string_def)

lemma demo_build: "failure (Run (demo_world u d) ''xcodebuild'' (''-scheme'' # args)) = None"
  by (simp add: demo_world_def demo_run_def printing_def)

lemma demo_xctrace_simulator:
  "GetDevices_xctrace (demo_world ''SIM01'' d) = Ok [''iPhone'' \<mapsto> ''SIM01'']"
  by (simp add: demo_world_def GetDevices_xctrace_def demo_run_def printing_def
      scanLines_def MaxScanTokenSize_def dropCR_def GetDevices_lines_def HasPrefix_def
      device_of_line_def slice_from_def slice_to_def and_then_def TrimSuffix_def
      HasSuffix_def suffix_to_prefix TrimSpace_def TrimLeft_def TrimRight_def
      isSpaceRune_def spaceRunes_def ContainsAny_def)

text \<open>
  A simulator build for a simulator whose identifier has no hyphen: the xctrace program
  deploys to the simulator, xcode-runner.go to a physical device.
\<close>

theorem target_by_path_or_by_identifier_witness:
  "target_of_run (main_xctrace (demo_world ''SIM01'' ''/b/Debug-iphonesimulator'')) =
     Some Simulator \<and>
   target_of_run (main_simctl (demo_world ''SIM01'' ''/b/Debug-iphonesimulator'')) =
     Some PhysicalDevice"
  using
    target_by_path_or_by_identifier
      [of "demo_world ''SIM01'' ''/b/Debug-iphonesimulator''" "''App.xcodeproj''"
          "''App''" "[]" "[''iPhone'' \<mapsto> ''SIM01'']" "''iPhone''" "''SIM01''"
          "''/b/Debug-iphonesimulator/App.app''" "''com.example.App''" "[''App'']"]
  by (simp add: demo_project demo_schemes demo_select demo_keys demo_simctl
      demo_settings demo_build demo_xctrace_simulator)

text \<open>
  Claim C3 as stated fails on xcode-runner.go: a device build for a device whose
  identifier contains a hyphen is sent to the simulator, though the artifact path holds
  no \<open>simulator\<close>.
\<close>

theorem target_by_path_counterexample:
  "GetBuildSettings (demo_world ''00008030-001C'' ''/b/Debug-iphoneos'') ''App''
     ''00008030-001C'' = Ok (''/b/Debug-iphoneos/App.app'', ''com.example.App'') \<and>
   \<not> Contains ''/b/Debug-iphoneos/App.app'' ''simulator'' \<and>
   target_of_run (main_simctl (demo_world ''00008030-001C'' ''/b/Debug-iphoneos'')) =
     Some Simulator"
proof -
  have "main_simctl (demo_world ''00008030-001C'' ''/b/Debug-iphoneos'') =
    [Println (rocket @ '' Xcode Runner CLI''),
     Println (folder @ '' Detected Xcode project: '' @ ''App.xcodeproj''),
     Printf ([CHR 0x0A] @ hammer @ '' Building '' @ ''App'' @ '' for '' @
             ''iPhone'' @ '' ('' @ ''00008030-001C'' @ '')...'' @ [CHR 0x0A])] @
    build_and_deploy_simctl (demo_world ''00008030-001C'' ''/b/Debug-iphoneos'')
      ''App'' ''00008030-001C'' ''/b/Debug-iphoneos/App.app'' ''com.example.App''"
    by (rule main_simctl_build [where schemes = "[''App'']"
          and devices = "[''iPhone'' \<mapsto> ''00008030-001C'']"])
      (simp_all add: demo_project demo_schemes demo_select demo_keys demo_simctl
        demo_settings)
  then show ?thesis
    by (simp add: demo_settings target_of_run_after_opening
        build_and_deploy_simctl_target demo_build)
qed

end
